theory Spec2Isabelle
  imports Main "HOL-Library.AList" "HOL-Library.Sublist"
begin

section \<open>JavaScript values, strings and objects\<close>

text \<open>
  The library works on plain JavaScript data: a \<^verbatim>\<open>Document\<close> is a
  \<^verbatim>\<open>Record<string, unknown>\<close>. Values are modelled by the datatype below; numbers are
  the integer-valued ones of magnitude below \<open>10\<^sup>2\<^sup>1\<close>, whose string form is the decimal
  numeral (fractions, NaN and infinities are not represented). Strings
  are byte strings (their UTF-8 encoding): every character the code inspects
  (\<^verbatim>\<open>{ } $ # & ` '\<close>) is ASCII, so searching and splitting agree with JavaScript's
  UTF-16 strings.

  An object is the list of its own enumerable string-keyed properties in
  \<^verbatim>\<open>Object.entries\<close> order, keys distinct. Assignment \<^verbatim>\<open>obj[k] = v\<close> is
  \<^const>\<open>AList.update\<close>: an existing key keeps its place, a new key goes last.
  (JavaScript enumerates keys that are canonical array indices first, and assigning to
  the name \<^verbatim>\<open>__proto__\<close> sets no property; objects with such keys are outside the
  model.)

  Documents are plain objects, so reading a field of a document also sees what
  \<^verbatim>\<open>Object.prototype\<close> provides. \<open>JFunction\<close> stands for a built-in function, which is
  how those inherited members read; documents themselves hold data. Reading an index
  value by its key attribute name (in \<open>query\<close> and \<open>trxUpdateOne\<close>) is modelled as a read
  of the own property; a key attribute named like a member of \<^verbatim>\<open>Object.prototype\<close> is
  outside the model.
\<close>

datatype jsval =
    JUndefined
  | JNull
  | JBool bool
  | JNum int
  | JStr string
  | JArr "jsval list"
  | JObj "(string \<times> jsval) list"
  | JFunction string

type_synonym Document = "(string \<times> jsval) list"

text \<open>ToBoolean, as used by \<^verbatim>\<open>if (v)\<close> and \<^verbatim>\<open>!v\<close>.\<close>

fun truthy :: "jsval \<Rightarrow> bool" where
  "truthy JUndefined = False"
| "truthy JNull = False"
| "truthy (JBool b) = b"
| "truthy (JNum n) = (n \<noteq> 0)"
| "truthy (JStr s) = (s \<noteq> [])"
| "truthy (JArr xs) = True"
| "truthy (JObj kvs) = True"
| "truthy (JFunction name) = True"

definition digit_char :: "nat \<Rightarrow> char" where
  "digit_char d = ''0123456789'' ! d"

fun string_of_nat :: "nat \<Rightarrow> string" where
  "string_of_nat n =
     (if n < 10 then [digit_char n]
      else string_of_nat (n div 10) @ [digit_char (n mod 10)])"

declare string_of_nat.simps [simp del]

definition string_of_int :: "int \<Rightarrow> string" where
  "string_of_int i =
     (if i < 0 then CHR ''-'' # string_of_nat (nat (- i)) else string_of_nat (nat i))"

text \<open>\<^verbatim>\<open>Array.prototype.join\<close> on an array of strings.\<close>

fun join :: "string \<Rightarrow> string list \<Rightarrow> string" where
  "join sep [] = []"
| "join sep [x] = x"
| "join sep (x # y # ys) = x @ sep @ join sep (y # ys)"

text \<open>
  \<^verbatim>\<open>String(v)\<close>. Inside \<^verbatim>\<open>join\<close> (and so inside the string form of an array)
  \<^verbatim>\<open>undefined\<close> and \<^verbatim>\<open>null\<close> elements become the empty string.
\<close>

fun js_String :: "jsval \<Rightarrow> string" where
  "js_String JUndefined = ''undefined''"
| "js_String JNull = ''null''"
| "js_String (JBool b) = (if b then ''true'' else ''false'')"
| "js_String (JNum n) = string_of_int n"
| "js_String (JStr s) = s"
| "js_String (JArr xs) =
     join '','' (map (\<lambda>x. if x = JUndefined \<or> x = JNull then [] else js_String x) xs)"
| "js_String (JObj kvs) = ''[object Object]''"
| "js_String (JFunction name) = ''function '' @ name @ ''() { [native code] }''"

definition join_element :: "jsval \<Rightarrow> string" where
  "join_element x = (if x = JUndefined \<or> x = JNull then [] else js_String x)"

text \<open>
  The members every plain object inherits from \<^verbatim>\<open>Object.prototype\<close>: the constructor
  \<^verbatim>\<open>Object\<close>, the built-in methods, and the accessor \<^verbatim>\<open>__proto__\<close>, which answers
  \<^verbatim>\<open>Object.prototype\<close> itself, an object without enumerable properties.
\<close>

definition Object_prototype :: Document where
  "Object_prototype =
     [(''constructor'', JFunction ''Object''),
      (''__defineGetter__'', JFunction ''__defineGetter__''),
      (''__defineSetter__'', JFunction ''__defineSetter__''),
      (''hasOwnProperty'', JFunction ''hasOwnProperty''),
      (''__lookupGetter__'', JFunction ''__lookupGetter__''),
      (''__lookupSetter__'', JFunction ''__lookupSetter__''),
      (''isPrototypeOf'', JFunction ''isPrototypeOf''),
      (''propertyIsEnumerable'', JFunction ''propertyIsEnumerable''),
      (''toString'', JFunction ''toString''),
      (''valueOf'', JFunction ''valueOf''),
      (''__proto__'', JObj []),
      (''toLocaleString'', JFunction ''toLocaleString'')]"

text \<open>
  Property read \<^verbatim>\<open>obj[k]\<close> on a plain object: the own property (also when its value
  is \<^verbatim>\<open>undefined\<close>); failing that, the inherited member of that name; failing that,
  \<^verbatim>\<open>undefined\<close>.
\<close>

definition js_get :: "Document \<Rightarrow> string \<Rightarrow> jsval" where
  "js_get obj k =
     (case map_of obj k of
        Some v \<Rightarrow> v
      | None \<Rightarrow>
          (case map_of Object_prototype k of
             Some inherited \<Rightarrow> inherited
           | None \<Rightarrow> JUndefined))"

text \<open>Object spread \<^verbatim>\<open>{ ...a, ...b }\<close>: copy \<open>a\<close>, then assign every property of \<open>b\<close>.\<close>

definition spread :: "('k \<times> 'v) list \<Rightarrow> ('k \<times> 'v) list \<Rightarrow> ('k \<times> 'v) list" where
  "spread a b = foldl (\<lambda>acc (k, v). AList.update k v acc) a b"

text \<open>
  \<^verbatim>\<open>String.prototype.replace(searchString, replaceValue)\<close> with a string pattern: the
  first occurrence of the pattern is replaced, and the replacement text is expanded by
  the language's substitution rules: \<^verbatim>\<open>$$\<close> is a dollar sign, \<^verbatim>\<open>$&\<close> the matched
  text, \<^verbatim>\<open>$`\<close> the text before the match and \<^verbatim>\<open>$'\<close> the text after it. A string
  pattern has no capture groups, so every other \<^verbatim>\<open>$\<close> stands for itself.
\<close>

fun GetSubstitution :: "string \<Rightarrow> string \<Rightarrow> string \<Rightarrow> string \<Rightarrow> string" where
  "GetSubstitution matched preceding following [] = []"
| "GetSubstitution matched preceding following [c] = [c]"
| "GetSubstitution matched preceding following (c # d # r) =
     (if c = CHR ''$'' \<and> d = CHR ''$'' then CHR ''$'' # GetSubstitution matched preceding following r
      else if c = CHR ''$'' \<and> d = CHR ''&'' then matched @ GetSubstitution matched preceding following r
      else if c = CHR ''$'' \<and> d = CHR 0x60 then preceding @ GetSubstitution matched preceding following r
      else if c = CHR ''$'' \<and> d = CHR 0x27 then following @ GetSubstitution matched preceding following r
      else c # GetSubstitution matched preceding following (d # r))"

fun indexOf :: "string \<Rightarrow> string \<Rightarrow> nat option" where
  "indexOf [] pat = (if pat = [] then Some 0 else None)"
| "indexOf (c # cs) pat =
     (if prefix pat (c # cs) then Some 0 else map_option Suc (indexOf cs pat))"

definition String_replace :: "string \<Rightarrow> string \<Rightarrow> string \<Rightarrow> string" where
  "String_replace s pat rep =
     (case indexOf s pat of
        None \<Rightarrow> s
      | Some pos \<Rightarrow>
          take pos s
          @ GetSubstitution pat (take pos s) (drop (pos + length pat) s) rep
          @ drop (pos + length pat) s)"

definition toUpperCase_char :: "char \<Rightarrow> char" where
  "toUpperCase_char c =
     (case map_of (zip ''abcdefghijklmnopqrstuvwxyz'' ''ABCDEFGHIJKLMNOPQRSTUVWXYZ'') c of
        None \<Rightarrow> c
      | Some u \<Rightarrow> u)"

text \<open>\<^verbatim>\<open>String.prototype.toUpperCase\<close> on ASCII text.\<close>

definition toUpperCase :: "string \<Rightarrow> string" where
  "toUpperCase s = map toUpperCase_char s"

section \<open>utils.ts\<close>

definition RESERVED_KEYWORDS :: "string list" where
  "RESERVED_KEYWORDS = [
    ''ABORT'', ''ABSOLUTE'', ''ACTION'', ''ADD'', ''AFTER'', ''AGENT'', ''AGGREGATE'', ''ALL'',
    ''ALLOCATE'', ''ALTER'', ''ANALYZE'', ''AND'', ''ANY'', ''ARCHIVE'', ''ARE'', ''ARRAY'',
    ''AS'', ''ASC'', ''ASCII'', ''ASENSITIVE'', ''ASSERTION'', ''ASYMMETRIC'', ''AT'',
    ''ATOMIC'', ''ATTACH'', ''ATTRIBUTE'', ''AUTH'', ''AUTHORIZATION'', ''AUTHORIZE'',
    ''AUTO'', ''AVG'', ''BACK'', ''BACKUP'', ''BASE'', ''BATCH'', ''BEFORE'', ''BEGIN'',
    ''BETWEEN'', ''BIGINT'', ''BINARY'', ''BIT'', ''BLOB'', ''BLOCK'', ''BOOLEAN'', ''BOTH'',
    ''BREADTH'', ''BUCKET'', ''BULK'', ''BY'', ''BYTE'', ''CALL'', ''CALLED'', ''CALLING'',
    ''CAPACITY'', ''CASCADE'', ''CASCADED'', ''CASE'', ''CAST'', ''CATALOG'', ''CHAR'',
    ''CHARACTER'', ''CHECK'', ''CLASS'', ''CLOB'', ''CLOSE'', ''CLUSTER'', ''CLUSTERED'',
    ''CLUSTERING'', ''CLUSTERS'', ''COALESCE'', ''COLLATE'', ''COLLATION'', ''COLLECTION'',
    ''COLUMN'', ''COLUMNS'', ''COMBINE'', ''COMMENT'', ''COMMIT'', ''COMPACT'', ''COMPILE'',
    ''COMPRESS'', ''CONDITION'', ''CONFLICT'', ''CONNECT'', ''CONNECTION'', ''CONSISTENCY'',
    ''CONSISTENT'', ''CONSTRAINT'', ''CONSTRAINTS'', ''CONSTRUCTOR'', ''CONSUMED'',
    ''CONTINUE'', ''CONVERT'', ''COPY'', ''CORRESPONDING'', ''COUNT'', ''COUNTER'', ''CREATE'',
    ''CROSS'', ''CUBE'', ''CURRENT'', ''CURSOR'', ''CYCLE'', ''DATA'', ''DATABASE'', ''DATE'',
    ''DATETIME'', ''DAY'', ''DEALLOCATE'', ''DEC'', ''DECIMAL'', ''DECLARE'', ''DEFAULT'',
    ''DEFERRABLE'', ''DEFERRED'', ''DEFINE'', ''DEFINED'', ''DEFINITION'', ''DELETE'',
    ''DELIMITED'', ''DEPTH'', ''DEREF'', ''DESC'', ''DESCRIBE'', ''DESCRIPTOR'', ''DETACH'',
    ''DETERMINISTIC'', ''DIAGNOSTICS'', ''DIRECTORIES'', ''DISABLE'', ''DISCONNECT'',
    ''DISTINCT'', ''DISTRIBUTE'', ''DO'', ''DOMAIN'', ''DOUBLE'', ''DROP'', ''DUMP'',
    ''DURATION'', ''DYNAMIC'', ''EACH'', ''ELEMENT'', ''ELSE'', ''ELSEIF'', ''EMPTY'',
    ''ENABLE'', ''END'', ''EQUAL'', ''EQUALS'', ''ERROR'', ''ESCAPE'', ''ESCAPED'', ''EVAL'',
    ''EVALUATE'', ''EXCEEDED'', ''EXCEPT'', ''EXCEPTION'', ''EXCEPTIONS'', ''EXCLUSIVE'',
    ''EXEC'', ''EXECUTE'', ''EXISTS'', ''EXIT'', ''EXPLAIN'', ''EXPLODE'', ''EXPORT'',
    ''EXPRESSION'', ''EXTENDED'', ''EXTERNAL'', ''EXTRACT'', ''FAIL'', ''FALSE'', ''FAMILY'',
    ''FETCH'', ''FIELDS'', ''FILE'', ''FILTER'', ''FILTERING'', ''FINAL'', ''FINISH'',
    ''FIRST'', ''FIXED'', ''FLATTERN'', ''FLOAT'', ''FOR'', ''FORCE'', ''FOREIGN'', ''FORMAT'',
    ''FORWARD'', ''FOUND'', ''FREE'', ''FROM'', ''FULL'', ''FUNCTION'', ''FUNCTIONS'',
    ''GENERAL'', ''GENERATE'', ''GET'', ''GLOB'', ''GLOBAL'', ''GO'', ''GOTO'', ''GRANT'',
    ''GREATER'', ''GROUP'', ''GROUPING'', ''HANDLER'', ''HASH'', ''HAVE'', ''HAVING'',
    ''HEAP'', ''HIDDEN'', ''HOLD'', ''HOUR'', ''IDENTIFIED'', ''IDENTITY'', ''IF'', ''IGNORE'',
    ''IMMEDIATE'', ''IMPORT'', ''IN'', ''INCLUDING'', ''INCLUSIVE'', ''INCREMENT'',
    ''INCREMENTAL'', ''INDEX'', ''INDEXED'', ''INDEXES'', ''INDICATOR'', ''INFINITE'',
    ''INITIALLY'', ''INLINE'', ''INNER'', ''INNTER'', ''INOUT'', ''INPUT'', ''INSENSITIVE'',
    ''INSERT'', ''INSTEAD'', ''INT'', ''INTEGER'', ''INTERSECT'', ''INTERVAL'', ''INTO'',
    ''INVALIDATE'', ''IS'', ''ISOLATION'', ''ITEM'', ''ITEMS'', ''ITERATE'', ''JOIN'', ''KEY'',
    ''KEYS'', ''LAG'', ''LANGUAGE'', ''LARGE'', ''LAST'', ''LATERAL'', ''LEAD'', ''LEADING'',
    ''LEAVE'', ''LEFT'', ''LENGTH'', ''LESS'', ''LEVEL'', ''LIKE'', ''LIMIT'', ''LIMITED'',
    ''LINES'', ''LIST'', ''LOAD'', ''LOCAL'', ''LOCALTIME'', ''LOCALTIMESTAMP'', ''LOCATION'',
    ''LOCATOR'', ''LOCK'', ''LOCKS'', ''LOG'', ''LOGED'', ''LONG'', ''LOOP'', ''LOWER'',
    ''MAP'', ''MATCH'', ''MATERIALIZED'', ''MAX'', ''MAXLEN'', ''MEMBER'', ''MERGE'',
    ''METHOD'', ''METRICS'', ''MIN'', ''MINUS'', ''MINUTE'', ''MISSING'', ''MOD'', ''MODE'',
    ''MODIFIES'', ''MODIFY'', ''MODULE'', ''MONTH'', ''MULTI'', ''MULTISET'', ''NAME'',
    ''NAMES'', ''NATIONAL'', ''NATURAL'', ''NCHAR'', ''NCLOB'', ''NEW'', ''NEXT'', ''NO'',
    ''NONE'', ''NOT'', ''NULL'', ''NULLIF'', ''NUMBER'', ''NUMERIC'', ''OBJECT'', ''OF'',
    ''OFFLINE'', ''OFFSET'', ''OLD'', ''ON'', ''ONLINE'', ''ONLY'', ''OPAQUE'', ''OPEN'',
    ''OPERATOR'', ''OPTION'', ''OR'', ''ORDER'', ''ORDINALITY'', ''OTHER'', ''OTHERS'',
    ''OUT'', ''OUTER'', ''OUTPUT'', ''OVER'', ''OVERLAPS'', ''OVERRIDE'', ''OWNER'', ''PAD'',
    ''PARALLEL'', ''PARAMETER'', ''PARAMETERS'', ''PARTIAL'', ''PARTITION'', ''PARTITIONED'',
    ''PARTITIONS'', ''PATH'', ''PERCENT'', ''PERCENTILE'', ''PERMISSION'', ''PERMISSIONS'',
    ''PIPE'', ''PIPELINED'', ''PLAN'', ''POOL'', ''POSITION'', ''PRECISION'', ''PREPARE'',
    ''PRESERVE'', ''PRIMARY'', ''PRIOR'', ''PRIVATE'', ''PRIVILEGES'', ''PROCEDURE'',
    ''PROCESSED'', ''PROJECT'', ''PROJECTION'', ''PROPERTY'', ''PROVISIONING'', ''PUBLIC'',
    ''PUT'', ''QUERY'', ''QUIT'', ''QUORUM'', ''RAISE'', ''RANDOM'', ''RANGE'', ''RANK'',
    ''RAW'', ''READ'', ''READS'', ''REAL'', ''REBUILD'', ''RECORD'', ''RECURSIVE'', ''REDUCE'',
    ''REF'', ''REFERENCE'', ''REFERENCES'', ''REFERENCING'', ''REGEXP'', ''REGION'',
    ''REINDEX'', ''RELATIVE'', ''RELEASE'', ''REMAINDER'', ''RENAME'', ''REPEAT'', ''REPLACE'',
    ''REQUEST'', ''RESET'', ''RESIGNAL'', ''RESOURCE'', ''RESPONSE'', ''RESTORE'',
    ''RESTRICT'', ''RESULT'', ''RETURN'', ''RETURNING'', ''RETURNS'', ''REVERSE'', ''REVOKE'',
    ''RIGHT'', ''ROLE'', ''ROLES'', ''ROLLBACK'', ''ROLLUP'', ''ROUTINE'', ''ROW'', ''ROWS'',
    ''RULE'', ''RULES'', ''SAMPLE'', ''SATISFIES'', ''SAVE'', ''SAVEPOINT'', ''SCAN'',
    ''SCHEMA'', ''SCOPE'', ''SCROLL'', ''SEARCH'', ''SECOND'', ''SECTION'', ''SEGMENT'',
    ''SEGMENTS'', ''SELECT'', ''SELF'', ''SEMI'', ''SENSITIVE'', ''SEPARATE'', ''SEQUENCE'',
    ''SERIALIZABLE'', ''SESSION'', ''SET'', ''SETS'', ''SHARD'', ''SHARE'', ''SHARED'',
    ''SHORT'', ''SHOW'', ''SIGNAL'', ''SIMILAR'', ''SIZE'', ''SKEWED'', ''SMALLINT'',
    ''SNAPSHOT'', ''SOME'', ''SOURCE'', ''SPACE'', ''SPACES'', ''SPARSE'', ''SPECIFIC'',
    ''SPECIFICTYPE'', ''SPLIT'', ''SQL'', ''SQLCODE'', ''SQLERROR'', ''SQLEXCEPTION'',
    ''SQLSTATE'', ''SQLWARNING'', ''START'', ''STATE'', ''STATIC'', ''STATUS'', ''STORAGE'',
    ''STORE'', ''STORED'', ''STREAM'', ''STRING'', ''STRUCT'', ''STYLE'', ''SUB'',
    ''SUBMULTISET'', ''SUBPARTITION'', ''SUBSTRING'', ''SUBTYPE'', ''SUM'', ''SUPER'',
    ''SYMMETRIC'', ''SYNONYM'', ''SYSTEM'', ''TABLE'', ''TABLESAMPLE'', ''TEMP'',
    ''TEMPORARY'', ''TERMINATED'', ''TEXT'', ''THAN'', ''THEN'', ''THROUGHPUT'', ''TIME'',
    ''TIMESTAMP'', ''TIMEZONE'', ''TINYINT'', ''TO'', ''TOKEN'', ''TOTAL'', ''TOUCH'',
    ''TRAILING'', ''TRANSACTION'', ''TRANSFORM'', ''TRANSLATE'', ''TRANSLATION'', ''TREAT'',
    ''TRIGGER'', ''TRIM'', ''TRUE'', ''TRUNCATE'', ''TTL'', ''TUPLE'', ''TYPE'', ''UNDER'',
    ''UNDO'', ''UNION'', ''UNIQUE'', ''UNIT'', ''UNKNOWN'', ''UNLOGGED'', ''UNNEST'',
    ''UNPROCESSED'', ''UNSIGNED'', ''UNTIL'', ''UPDATE'', ''UPPER'', ''URL'', ''USAGE'',
    ''USE'', ''USER'', ''USERS'', ''USING'', ''UUID'', ''VACUUM'', ''VALUE'', ''VALUED'',
    ''VALUES'', ''VARCHAR'', ''VARIABLE'', ''VARIANCE'', ''VARINT'', ''VARYING'', ''VIEW'',
    ''VIEWS'', ''VIRTUAL'', ''VOID'', ''WAIT'', ''WHEN'', ''WHENEVER'', ''WHERE'', ''WHILE'',
    ''WINDOW'', ''WITH'', ''WITHIN'', ''WITHOUT'', ''WORK'', ''WRAPPED'', ''WRITE'', ''YEAR'',
    ''ZONE''
  ]"

definition RESERVED_KEYWORD_PREFIX :: string where
  "RESERVED_KEYWORD_PREFIX = ''#reserved_''"

definition isReservedKey :: "string \<Rightarrow> bool" where
  "isReservedKey key = (toUpperCase key \<in> set RESERVED_KEYWORDS)"

text \<open>
  The SDK's \<^verbatim>\<open>marshall\<close>/\<^verbatim>\<open>unmarshall\<close> translate between native values and the
  store's attribute encoding. The model keeps native values on both sides (the encoding
  is transparent); what it keeps of \<^verbatim>\<open>marshall\<close> is its failure: a member that is
  \<^verbatim>\<open>undefined\<close> raises unless \<^verbatim>\<open>removeUndefinedValues\<close> is set, in which case the
  member is dropped.
\<close>

datatype SkMatch =
    exact
  | begins_with
  | greater_than
  | less_than
  | greater_than_or_equal
  | less_than_or_equal

datatype SortOrder = asc | desc

record DbIndex =
  tableName :: string
  indexName :: "string option"
  partitionKey :: string
  sortKey :: string

type_synonym IndexFieldsMap = "(string \<times> string list) list"

definition mappedKey_of :: "string \<Rightarrow> string \<Rightarrow> string" where
  "mappedKey_of keyPrefix key =
     (if isReservedKey key then RESERVED_KEYWORD_PREFIX @ key else keyPrefix @ key)"

definition unmarshallReservedKeys :: "Document \<Rightarrow> Document" where
  "unmarshallReservedKeys data =
     foldl (\<lambda>acc (key, value).
        let mappedKey = (if prefix RESERVED_KEYWORD_PREFIX key
                         then String_replace key RESERVED_KEYWORD_PREFIX []
                         else key)
        in AList.update mappedKey value acc) [] data"



definition getUpdateExpression :: "Document \<Rightarrow> string \<Rightarrow> string \<Rightarrow> string option" where
  "getUpdateExpression payload keyPrefix valuePrefix =
     (let expression =
        foldl (\<lambda>acc (index, (key, value)).
           if value = JUndefined then acc
           else if index = 0
             then ''SET '' @ mappedKey_of keyPrefix key @ '' = '' @ valuePrefix @ key
             else acc @ '', '' @ mappedKey_of keyPrefix key @ '' = '' @ valuePrefix @ key)
          [] (List.enumerate 0 payload)
      in if expression = [] then None else Some expression)"


fun getKeyConditionExpression :: "DbIndex \<Rightarrow> SkMatch \<Rightarrow> string \<Rightarrow> string" where
  "getKeyConditionExpression queryIndex exact valuePrefix =
     partitionKey queryIndex @ '' = '' @ valuePrefix @ ''pk AND ''
     @ sortKey queryIndex @ '' = '' @ valuePrefix @ ''sk''"
| "getKeyConditionExpression queryIndex begins_with valuePrefix =
     partitionKey queryIndex @ '' = '' @ valuePrefix @ ''pk AND begins_with(''
     @ sortKey queryIndex @ '', '' @ valuePrefix @ ''sk)''"
| "getKeyConditionExpression queryIndex greater_than valuePrefix =
     partitionKey queryIndex @ '' = '' @ valuePrefix @ ''pk AND ''
     @ sortKey queryIndex @ '' > '' @ valuePrefix @ ''sk''"
| "getKeyConditionExpression queryIndex less_than valuePrefix =
     partitionKey queryIndex @ '' = '' @ valuePrefix @ ''pk AND ''
     @ sortKey queryIndex @ '' < '' @ valuePrefix @ ''sk''"
| "getKeyConditionExpression queryIndex greater_than_or_equal valuePrefix =
     partitionKey queryIndex @ '' = '' @ valuePrefix @ ''pk AND ''
     @ sortKey queryIndex @ '' >= '' @ valuePrefix @ ''sk''"
| "getKeyConditionExpression queryIndex less_than_or_equal valuePrefix =
     partitionKey queryIndex @ '' = '' @ valuePrefix @ ''pk AND ''
     @ sortKey queryIndex @ '' <= '' @ valuePrefix @ ''sk''"



text \<open>
  The successive matches of \<^verbatim>\<open>/\{([^}]+)\}/g\<close> on a string, as the \<^verbatim>\<open>exec\<close> loop
  sees them: for each match the text of group 1. A match starts at a \<^verbatim>\<open>{\<close> that is
  followed by at least one character other than \<^verbatim>\<open>}\<close> and then a \<^verbatim>\<open>}\<close>; the search
  resumes after the match.
\<close>

function fieldRegex_exec :: "string \<Rightarrow> string list" where
  "fieldRegex_exec [] = []"
| "fieldRegex_exec (c # cs) =
     (if c = CHR ''{''
         \<and> takeWhile (\<lambda>x. x \<noteq> CHR ''}'') cs \<noteq> []
         \<and> dropWhile (\<lambda>x. x \<noteq> CHR ''}'') cs \<noteq> []
      then takeWhile (\<lambda>x. x \<noteq> CHR ''}'') cs
             # fieldRegex_exec (tl (dropWhile (\<lambda>x. x \<noteq> CHR ''}'') cs))
      else fieldRegex_exec cs)"
  by pat_completeness auto
termination
proof (relation "measure length")
  show "wf (measure length)" by simp
next
  fix c :: char and cs :: string
  have "length (tl (dropWhile (\<lambda>x. x \<noteq> CHR ''}'') cs)) \<le> length cs"
    using length_dropWhile_le [of "\<lambda>x. x \<noteq> CHR ''}''" cs] by simp
  then show "(tl (dropWhile (\<lambda>x. x \<noteq> CHR ''}'') cs), c # cs) \<in> measure length"
    by simp
next
  fix c :: char and cs :: string
  show "(cs, c # cs) \<in> measure length" by simp
qed

definition replaceFieldWithValue :: "string \<Rightarrow> Document \<Rightarrow> string" where
  "replaceFieldWithValue field resource =
     foldl (\<lambda>result requiredField.
        let matchedPattern = CHR ''{'' # requiredField @ ''}'';
            fieldValue = js_get resource requiredField
        in if truthy fieldValue
           then String_replace result matchedPattern (js_String fieldValue)
           else result)
       field (fieldRegex_exec field)"

definition removeIndexProperties :: "Document \<Rightarrow> IndexFieldsMap \<Rightarrow> Document" where
  "removeIndexProperties resource indexFieldsMap =
     (let forbiddenFields = map fst indexFieldsMap
      in filter (\<lambda>(key, value). key \<in> set forbiddenFields) resource)"

text \<open>
  The cursor codec is built from platform functions: \<^verbatim>\<open>JSON.stringify\<close>,
  \<^verbatim>\<open>JSON.parse\<close> (which raises on text that is not JSON: \<open>None\<close>) and Node's
  \<^verbatim>\<open>Buffer\<close> conversions. They are parameters of the model.
\<close>

type_synonym buffer = "char list"

record platform =
  JSON_stringify :: "jsval \<Rightarrow> string"
  JSON_parse :: "string \<Rightarrow> jsval option"
  Buffer_from_utf8 :: "string \<Rightarrow> buffer"
  Buffer_toString_base64 :: "buffer \<Rightarrow> string"
  Buffer_from_base64 :: "string \<Rightarrow> buffer"
  Buffer_toString_utf8 :: "buffer \<Rightarrow> string"

definition encodeLastEvaluatedKey :: "platform \<Rightarrow> jsval \<Rightarrow> string option" where
  "encodeLastEvaluatedKey pf lastEvaluatedKey =
     (if \<not> truthy lastEvaluatedKey then None
      else Some (Buffer_toString_base64 pf
                   (Buffer_from_utf8 pf (JSON_stringify pf lastEvaluatedKey))))"

definition decodeLastEvaluatedKey :: "platform \<Rightarrow> string \<Rightarrow> jsval" where
  "decodeLastEvaluatedKey pf lastEvaluatedKey =
     (case JSON_parse pf (Buffer_toString_utf8 pf (Buffer_from_base64 pf lastEvaluatedKey)) of
        None \<Rightarrow> JUndefined
      | Some v \<Rightarrow> v)"

section \<open>db\_model.ts\<close>

record CancellationReason =
  Code :: "string option"
  Message :: "string option"

record QueryCommand =
  query_TableName :: string
  query_IndexName :: "string option"
  KeyConditionExpression :: string
  query_ExpressionAttributeValues :: Document
  Limit :: "nat option"
  ExclusiveStartKey :: jsval
  ScanIndexForward :: bool

record QueryResponse =
  httpStatusCode :: "nat option"
  Items :: "Document list option"
  LastEvaluatedKey :: jsval

text \<open>
  Everything the code can raise. The plain \<^verbatim>\<open>Error\<close>s whose message embeds
  \<^verbatim>\<open>JSON.stringify\<close> of some value carry that value instead of the text:
  \<^item> \<open>QueryFailed r\<close>: \<^verbatim>\<open>Error(`Failed to query for resources ${JSON.stringify(response)}`)\<close>;
  \<^item> \<open>MoreThanOne q\<close>: \<^verbatim>\<open>Error(`Found more than one resource for ${JSON.stringify(queryIndexValues)}`)\<close>;
  \<^item> \<open>TransactionFailed s\<close>: \<^verbatim>\<open>Error(`Failed to execute transactions ${JSON.stringify(response)}`)\<close>,
    \<open>s\<close> the response's status code;
  \<^item> \<open>NotHandled i r\<close>:
    \<^verbatim>\<open>Error(`A conditional check error has not been handled ${index} ${JSON.stringify(reason)}`)\<close>;
  \<^item> \<open>SdkError m\<close>: any other exception raised inside the SDK (transport, marshalling).
\<close>

datatype error =
    Error string
  | ConditionCheckError string
  | UniqueContraintError string
  | TransactionCanceledException "CancellationReason list option"
  | QueryFailed QueryResponse
  | MoreThanOne Document
  | TransactionFailed "nat option"
  | NotHandled nat CancellationReason
  | SdkError string

definition marshall :: "Document \<Rightarrow> error + Document" where
  "marshall data =
     (if list_ex (\<lambda>(key, value). value = JUndefined) data
      then Inl (SdkError ''Pass options.removeUndefinedValues=true to remove undefined values from map/array/set.'')
      else Inr data)"

definition marshall_removeUndefinedValues :: "Document \<Rightarrow> Document" where
  "marshall_removeUndefinedValues data = filter (\<lambda>(key, value). value \<noteq> JUndefined) data"

record PutItem =
  put_TableName :: string
  put_ConditionExpression :: string
  put_Item :: Document

record UpdateItem =
  update_TableName :: string
  update_Key :: Document
  update_ConditionExpression :: "string option"
  UpdateExpression :: "string option"
  update_ExpressionAttributeNames :: "(string \<times> string) list"
  update_ExpressionAttributeValues :: Document

record DeleteItem =
  delete_TableName :: string
  delete_Key :: Document

datatype TransactWriteItem =
    Put PutItem
  | Update UpdateItem
  | Delete DeleteItem

text \<open>
  The instance: its configuration and the two private scratch fields \<open>items\<close> and
  \<open>errorPayloads\<close>. \<open>errorPayloads\<close> is an object used as a dictionary; its keys all end
  in \<^verbatim>\<open>-<index>\<close>, so the \<^verbatim>\<open>in\<close> test never sees an inherited property.
\<close>

record DbModel =
  tenantId :: string
  entityName :: string
  writeIndex :: DbIndex
  indexFieldsMap :: IndexFieldsMap
  items :: "TransactWriteItem list"
  errorPayloads :: "string \<rightharpoonup> error"

definition constructor :: "string \<Rightarrow> string \<Rightarrow> DbIndex \<Rightarrow> IndexFieldsMap \<Rightarrow> DbModel" where
  "constructor tenant entity wIndex fieldsMap =
     \<lparr>tenantId = tenant, entityName = entity, writeIndex = wIndex,
      indexFieldsMap = fieldsMap, items = [], errorPayloads = Map.empty\<rparr>"

definition indexValueSeparator :: string where
  "indexValueSeparator = ''#''"

definition uniqueSortKeyValue :: string where
  "uniqueSortKeyValue = ''Unique''"

definition trxSetErrorHandler :: "string \<Rightarrow> error \<Rightarrow> DbModel \<Rightarrow> DbModel" where
  "trxSetErrorHandler reason payload this =
     (let index = int (length (items this)) - 1
      in this\<lparr>errorPayloads := (errorPayloads this)(reason @ ''-'' @ string_of_int index \<mapsto> payload)\<rparr>)"

text \<open>
  \<^verbatim>\<open>`${reason.Code}`\<close>: the code, or the text \<^verbatim>\<open>undefined\<close> when the store gave none.
\<close>

definition Code_text :: "CancellationReason \<Rightarrow> string" where
  "Code_text reason = (case Code reason of None \<Rightarrow> ''undefined'' | Some c \<Rightarrow> c)"

text \<open>
  The \<^verbatim>\<open>forEach\<close> callback of \<open>trxHandleError\<close> over the entries that are left, each
  with its position: \<open>Some e\<close> when the callback raises \<open>e\<close> (which ends the loop),
  \<open>None\<close> when the loop runs to its end.
\<close>

fun trxHandleError_forEach :: "(string \<rightharpoonup> error) \<Rightarrow> (nat \<times> CancellationReason) list \<Rightarrow> error option" where
  "trxHandleError_forEach payloads [] = None"
| "trxHandleError_forEach payloads ((index, reason) # rest) =
     (if Code reason = Some ''None'' then trxHandleError_forEach payloads rest
      else (let key = Code_text reason @ ''-'' @ string_of_nat index
            in case payloads key of
                 Some error \<Rightarrow> Some error
               | None \<Rightarrow> Some (NotHandled index reason)))"

definition trxHandleError :: "DbModel \<Rightarrow> error \<Rightarrow> error option" where
  "trxHandleError this error =
     (case error of
        TransactionCanceledException reasons \<Rightarrow>
          (case reasons of
             None \<Rightarrow> None
           | Some rs \<Rightarrow> trxHandleError_forEach (errorPayloads this) (List.enumerate 0 rs))
      | _ \<Rightarrow> None)"

record BuildIndexesConfig =
  truncateAtFirstEmpty :: bool
  onlyFields :: "string list option"

definition buildIndexValue :: "string \<Rightarrow> Document \<Rightarrow> string list \<Rightarrow> string" where
  "buildIndexValue tenant resource indexConfig =
     (let indexValue = join indexValueSeparator (tenant # indexConfig);
          indexValue = replaceFieldWithValue indexValue resource
      in if CHR ''{'' \<in> set indexValue
         then takeWhile (\<lambda>c. c \<noteq> CHR ''{'') indexValue
         else indexValue)"

definition buildIndexes :: "DbModel \<Rightarrow> Document \<Rightarrow> IndexFieldsMap \<Rightarrow> BuildIndexesConfig \<Rightarrow> (string \<times> string) list" where
  "buildIndexes this resource indexConfig config =
     foldl (\<lambda>indexValues (indexName, indexConfig).
              AList.update indexName (buildIndexValue (tenantId this) resource indexConfig) indexValues)
       []
       (filter (\<lambda>(key, segments).
                  (case onlyFields config of None \<Rightarrow> True | Some names \<Rightarrow> key \<in> set names))
          indexConfig)"

record QueryOneConfig =
  skMatch :: SkMatch
  sort :: "SortOrder option"

record QueryConfig = QueryOneConfig +
  limit :: "nat option"
  lastId :: "string option"

record PaginatedDbResult =
  result_data :: "Document list"
  result_lastId :: "string option"

definition string_or_undefined :: "string option \<Rightarrow> jsval" where
  "string_or_undefined v = (case v of None \<Rightarrow> JUndefined | Some s \<Rightarrow> JStr s)"

text \<open>
  \<open>query\<close>. The store is the parameter \<open>send\<close>: what \<^verbatim>\<open>client.send(command)\<close> answers
  (or raises) for a query command.
\<close>

definition query ::
  "platform \<Rightarrow> (QueryCommand \<Rightarrow> error + QueryResponse) \<Rightarrow> DbModel
   \<Rightarrow> Document \<Rightarrow> DbIndex \<Rightarrow> QueryConfig \<Rightarrow> error + PaginatedDbResult" where
  "query pf send this queryIndexValues queryIndex config =
     (let indexValues = buildIndexes this queryIndexValues (indexFieldsMap this)
            \<lparr>truncateAtFirstEmpty = (skMatch config \<noteq> exact),
             onlyFields = Some [partitionKey queryIndex, sortKey queryIndex]\<rparr>;
          keyConditionExpression = getKeyConditionExpression queryIndex (skMatch config) '':''
      in case marshall
                [('':pk'', string_or_undefined (map_of indexValues (partitionKey queryIndex))),
                 ('':sk'', string_or_undefined (map_of indexValues (sortKey queryIndex)))] of
           Inl e \<Rightarrow> Inl e
         | Inr expressionAttributeValues \<Rightarrow>
            (let exclusiveStartKey =
                   (case lastId config of
                      None \<Rightarrow> JUndefined
                    | Some token \<Rightarrow>
                        if token \<noteq> [] then decodeLastEvaluatedKey pf token else JUndefined);
                 command =
                   \<lparr>query_TableName = tableName queryIndex,
                    query_IndexName = indexName queryIndex,
                    KeyConditionExpression = keyConditionExpression,
                    query_ExpressionAttributeValues = expressionAttributeValues,
                    Limit = limit config,
                    ExclusiveStartKey = exclusiveStartKey,
                    ScanIndexForward = (sort config \<noteq> Some desc)\<rparr>
             in case send command of
                  Inl e \<Rightarrow> Inl e
                | Inr response \<Rightarrow>
                    if httpStatusCode response \<noteq> Some 200 then Inl (QueryFailed response)
                    else (case Items response of
                            None \<Rightarrow> Inr \<lparr>result_data = [], result_lastId = None\<rparr>
                          | Some its \<Rightarrow>
                              if length its = 0 then Inr \<lparr>result_data = [], result_lastId = None\<rparr>
                              else Inr
                                \<lparr>result_data = map (\<lambda>d. removeIndexProperties d (indexFieldsMap this))
                                         (map unmarshallReservedKeys its),
                                 result_lastId =
                                   encodeLastEvaluatedKey pf (LastEvaluatedKey response)\<rparr>)))"

definition queryOne ::
  "platform \<Rightarrow> (QueryCommand \<Rightarrow> error + QueryResponse) \<Rightarrow> DbModel
   \<Rightarrow> Document \<Rightarrow> DbIndex \<Rightarrow> QueryOneConfig \<Rightarrow> error + Document option" where
  "queryOne pf send this queryIndexValues queryIndex config =
     (case query pf send this queryIndexValues queryIndex
             \<lparr>skMatch = skMatch config, sort = sort config, limit = Some 1, lastId = None\<rparr> of
        Inl e \<Rightarrow> Inl e
      | Inr results \<Rightarrow>
          if length (result_data results) = 0 then Inr None
          else if length (result_data results) > 1 then Inl (MoreThanOne queryIndexValues)
          else Inr (Some (result_data results ! 0)))"






text \<open>
  The constraint row of \<open>trxInsertUniqueConstraint\<close> and \<open>trxRemoveUniqueConstraint\<close> has
  two string members, so marshalling it cannot raise; the operations carry the row as it is.
\<close>

definition uniqueConstraint :: "DbModel \<Rightarrow> jsval list \<Rightarrow> Document" where
  "uniqueConstraint this values =
     AList.update (sortKey (writeIndex this)) (JStr uniqueSortKeyValue)
       (AList.update (partitionKey (writeIndex this))
          (JStr (join indexValueSeparator
                   (tenantId this # entityName this # map join_element values))) [])"

definition trxInsertUniqueConstraint :: "jsval list \<Rightarrow> DbModel \<Rightarrow> DbModel" where
  "trxInsertUniqueConstraint values this =
     trxSetErrorHandler ''ConditionalCheckFailed''
       (UniqueContraintError
          (''Failed to insert unique constraint for one of ['' @ join '', '' (map join_element values) @ '']''))
       (this\<lparr>items := items this @
          [Put \<lparr>put_TableName = tableName (writeIndex this),
                put_ConditionExpression =
                  ''attribute_not_exists('' @ partitionKey (writeIndex this)
                  @ '') AND attribute_not_exists('' @ sortKey (writeIndex this) @ '')'',
                put_Item = marshall_removeUndefinedValues (uniqueConstraint this values)\<rparr>]\<rparr>)"

definition trxRemoveUniqueConstraint :: "jsval list \<Rightarrow> DbModel \<Rightarrow> DbModel" where
  "trxRemoveUniqueConstraint values this =
     trxSetErrorHandler ''ConditionalCheckFailed''
       (Error (''Failed to delete unique constraint for '' @ entityName this @ '' ''
               @ join '' '' (map join_element values)))
       (this\<lparr>items := items this @
          [Delete \<lparr>delete_TableName = tableName (writeIndex this),
                   delete_Key = uniqueConstraint this values\<rparr>]\<rparr>)"

text \<open>
  \<open>trxExecute\<close>. The store is the parameter \<open>send\<close>: for the submitted operations it
  answers with a response (its status code) or raises. The result is what the caller
  sees (\<open>Inl\<close> the error raised, \<open>Inr ()\<close> a normal return) and the instance afterwards.
\<close>

definition trxExecute ::
  "(TransactWriteItem list \<Rightarrow> error + nat option) \<Rightarrow> DbModel \<Rightarrow> (error + unit) \<times> DbModel" where
  "trxExecute send this =
     (let tried =
            (case send (items this) of
               Inl e \<Rightarrow> Inl e
             | Inr status \<Rightarrow>
                 if status \<noteq> Some 200 then Inl (TransactionFailed status) else Inr ());
          caught =
            (case tried of
               Inr u \<Rightarrow> Inr u
             | Inl error \<Rightarrow>
                 (case trxHandleError this error of
                    Some raised \<Rightarrow> Inl raised
                  | None \<Rightarrow> Inl error))
      in (caught, this\<lparr>items := [], errorPayloads := Map.empty\<rparr>))"

section \<open>Templates as segments\<close>

text \<open>
  The statements about key construction speak of a template as a sequence of literal
  segments and \<^verbatim>\<open>{fieldName}\<close> placeholders. This section is that vocabulary; the code
  itself works on the joined string. \<open>render\<close> gives the text of a segment in the
  template, \<open>substituted\<close> its text once the entity's value is filled in. A placeholder
  is \<open>resolved\<close> by an entity when its name is a field name, the value read from the
  entity under that name is truthy, and the string form of the value contains no
  \<^verbatim>\<open>{\<close> and none of the replacement patterns \<^verbatim>\<open>$$\<close>, \<^verbatim>\<open>$&\<close>, \<^verbatim>\<open>$`\<close>, \<^verbatim>\<open>$'\<close>;
  a literal is resolved when it contains no \<^verbatim>\<open>{\<close>.
\<close>

datatype segment = Literal string | Placeholder string

fun render :: "segment \<Rightarrow> string" where
  "render (Literal s) = s"
| "render (Placeholder f) = CHR ''{'' # f @ ''}''"

fun substituted :: "Document \<Rightarrow> segment \<Rightarrow> string" where
  "substituted resource (Literal s) = s"
| "substituted resource (Placeholder f) = js_String (js_get resource f)"

definition fieldName :: "string \<Rightarrow> bool" where
  "fieldName f = (f \<noteq> [] \<and> CHR ''{'' \<notin> set f \<and> CHR ''}'' \<notin> set f)"

fun has_replacement_pattern :: "string \<Rightarrow> bool" where
  "has_replacement_pattern [] = False"
| "has_replacement_pattern [c] = False"
| "has_replacement_pattern (c # d # r) =
     (if c = CHR ''$'' \<and> d \<in> set [CHR ''$'', CHR ''&'', CHR 0x60, CHR 0x27] then True
      else has_replacement_pattern (d # r))"

fun resolved :: "Document \<Rightarrow> segment \<Rightarrow> bool" where
  "resolved resource (Literal s) = (CHR ''{'' \<notin> set s)"
| "resolved resource (Placeholder f) =
     (fieldName f \<and> truthy (js_get resource f)
      \<and> CHR ''{'' \<notin> set (js_String (js_get resource f))
      \<and> \<not> has_replacement_pattern (js_String (js_get resource f)))"

fun placeholders :: "segment list \<Rightarrow> string list" where
  "placeholders [] = []"
| "placeholders (Literal s # ps) = placeholders ps"
| "placeholders (Placeholder f # ps) = f # placeholders ps"

text \<open>The body of the loop of \<open>replaceFieldWithValue\<close>, for one match.\<close>

definition replaceField_step :: "Document \<Rightarrow> string \<Rightarrow> string \<Rightarrow> string" where
  "replaceField_step resource result requiredField =
     (if truthy (js_get resource requiredField)
      then String_replace result (CHR ''{'' # requiredField @ ''}'') (js_String (js_get resource requiredField))
      else result)"



definition writeKeys :: "DbModel \<Rightarrow> string set" where
  "writeKeys this = {partitionKey (writeIndex this), sortKey (writeIndex this)}"

section \<open>A model handler\<close>

text \<open>
  The configuration of the README's \<^verbatim>\<open>User\<close> handler, and stores that answer a fixed
  way, for evaluating the functions above on concrete inputs.
\<close>

definition PRIMARY_INDEX_CONFIG :: DbIndex where
  "PRIMARY_INDEX_CONFIG =
     \<lparr>tableName = ''main'', indexName = None, partitionKey = ''PK'', sortKey = ''SK''\<rparr>"

definition GSI1_CONFIG :: DbIndex where
  "GSI1_CONFIG =
     \<lparr>tableName = ''main'', indexName = Some ''GSI1'',
      partitionKey = ''GSI1PK'', sortKey = ''GSI1SK''\<rparr>"

definition INDEX_FIELDS_MAP :: IndexFieldsMap where
  "INDEX_FIELDS_MAP =
     [(''PK'', [''User'', ''{id}'']), (''SK'', [''User'']),
      (''GSI1PK'', [''User'']), (''GSI1SK'', [''User'', ''{email}''])]"

definition Handler :: DbModel where
  "Handler = constructor ''acme'' ''User'' PRIMARY_INDEX_CONFIG INDEX_FIELDS_MAP"

text \<open>Two operations staged: a unique-constraint insert, then a unique-constraint removal.\<close>

definition staged_two :: DbModel where
  "staged_two =
     trxRemoveUniqueConstraint [JStr ''a@b.com'']
       (trxInsertUniqueConstraint [JStr ''n@b.com''] Handler)"

definition reason_of :: "string \<Rightarrow> CancellationReason" where
  "reason_of c = \<lparr>Code = Some c, Message = None\<rparr>"

text \<open>A store that cancels every transaction with the given report.\<close>

definition store_cancels ::
  "CancellationReason list \<Rightarrow> TransactWriteItem list \<Rightarrow> error + nat option" where
  "store_cancels reasons ops = Inl (TransactionCanceledException (Some reasons))"

text \<open>Stores that answer every query with the given items, successfully.\<close>

definition store_answers :: "Document list \<Rightarrow> QueryCommand \<Rightarrow> error + QueryResponse" where
  "store_answers found command =
     Inr \<lparr>httpStatusCode = Some 200, Items = Some found, LastEvaluatedKey = JUndefined\<rparr>"

definition stored_user :: Document where
  "stored_user =
     [(''PK'', JStr ''acme#User#1''), (''SK'', JStr ''acme#User''),
      (''GSI1PK'', JStr ''acme#User''), (''GSI1SK'', JStr ''acme#User#a@b.com''),
      (''id'', JStr ''1''), (''email'', JStr ''a@b.com''),
      (''createdAt'', JNum 1700), (''updatedAt'', JNum 1700)]"

text \<open>
  A small platform for evaluation: standard base64 over the bytes of the text, and a
  JSON printer and reader for flat objects of plain strings (no escapes).
\<close>

definition base64_alphabet :: string where
  "base64_alphabet = ''ABCDEFGHIJKLMNOPQRSTUVWXYZabcdefghijklmnopqrstuvwxyz0123456789+/''"

fun base64_encode :: "buffer \<Rightarrow> string" where
  "base64_encode [] = []"
| "base64_encode [a] =
     (let x = (of_char a :: nat)
      in [base64_alphabet ! (x div 4), base64_alphabet ! ((x mod 4) * 16),
          CHR ''='', CHR ''=''])"
| "base64_encode [a, b] =
     (let x = (of_char a :: nat); y = (of_char b :: nat)
      in [base64_alphabet ! (x div 4), base64_alphabet ! ((x mod 4) * 16 + y div 16),
          base64_alphabet ! ((y mod 16) * 4), CHR ''=''])"
| "base64_encode (a # b # c # rest) =
     (let x = (of_char a :: nat); y = (of_char b :: nat); z = (of_char c :: nat)
      in [base64_alphabet ! (x div 4), base64_alphabet ! ((x mod 4) * 16 + y div 16),
          base64_alphabet ! ((y mod 16) * 4 + z div 64), base64_alphabet ! (z mod 64)]
         @ base64_encode rest)"

definition base64_value :: "char \<Rightarrow> nat option" where
  "base64_value c = map_of (zip base64_alphabet [0..<64]) c"

fun base64_decode :: "string \<Rightarrow> buffer" where
  "base64_decode (a # b # c # d # rest) =
     (case (base64_value a, base64_value b, base64_value c, base64_value d) of
        (Some w, Some x, Some y, Some z) \<Rightarrow>
          [char_of (w * 4 + x div 16), char_of ((x mod 16) * 16 + y div 4),
           char_of ((y mod 4) * 64 + z)]
          @ base64_decode rest
      | (Some w, Some x, Some y, None) \<Rightarrow>
          [char_of (w * 4 + x div 16), char_of ((x mod 16) * 16 + y div 4)]
      | (Some w, Some x, None, _) \<Rightarrow> [char_of (w * 4 + x div 16)]
      | _ \<Rightarrow> [])"
| "base64_decode s = []"

definition quoted :: "string \<Rightarrow> string" where
  "quoted s = CHR 0x22 # s @ [CHR 0x22]"

definition demo_stringify :: "jsval \<Rightarrow> string" where
  "demo_stringify v =
     (case v of
        JObj kvs \<Rightarrow>
          ''{'' @ join '',''
                   (map (\<lambda>(k, x). quoted k @ '':''
                           @ (case x of JStr s \<Rightarrow> quoted s | _ \<Rightarrow> ''null'')) kvs)
          @ ''}''
      | JStr s \<Rightarrow> quoted s
      | _ \<Rightarrow> ''null'')"

definition read_string :: "string \<Rightarrow> (string \<times> string) option" where
  "read_string s =
     (case s of
        [] \<Rightarrow> None
      | c # cs \<Rightarrow>
          if c = CHR 0x22 \<and> dropWhile (\<lambda>x. x \<noteq> CHR 0x22) cs \<noteq> []
          then Some (takeWhile (\<lambda>x. x \<noteq> CHR 0x22) cs,
                     tl (dropWhile (\<lambda>x. x \<noteq> CHR 0x22) cs))
          else None)"

fun read_members :: "nat \<Rightarrow> string \<Rightarrow> Document option" where
  "read_members 0 s = None"
| "read_members (Suc n) s =
     (case read_string s of
        None \<Rightarrow> None
      | Some (k, r1) \<Rightarrow>
          (case r1 of
             [] \<Rightarrow> None
           | c # r2 \<Rightarrow>
               if c \<noteq> CHR '':'' then None
               else (case read_string r2 of
                       None \<Rightarrow> None
                     | Some (v, r3) \<Rightarrow>
                         if r3 = ''}'' then Some [(k, JStr v)]
                         else (case r3 of
                                 [] \<Rightarrow> None
                               | d # r4 \<Rightarrow>
                                   if d = CHR '',''
                                   then map_option ((#) (k, JStr v)) (read_members n r4)
                                   else None))))"

definition demo_parse :: "string \<Rightarrow> jsval option" where
  "demo_parse s =
     (if s = ''{}'' then Some (JObj [])
      else case s of
             [] \<Rightarrow> None
           | c # cs \<Rightarrow>
               if c = CHR ''{'' then map_option JObj (read_members (length cs) cs)
               else None)"

definition demo_platform :: platform where
  "demo_platform =
     \<lparr>JSON_stringify = demo_stringify, JSON_parse = demo_parse,
      Buffer_from_utf8 = id, Buffer_toString_base64 = base64_encode,
      Buffer_from_base64 = base64_decode, Buffer_toString_utf8 = id\<rparr>"

definition last_key :: jsval where
  "last_key = JObj [(''PK'', JStr ''acme#User#1''), (''SK'', JStr ''acme#User'')]"

text \<open>An index with a three-placeholder sort key, and the configuration that builds every index.\<close>

definition three_part_key :: IndexFieldsMap where
  "three_part_key = [(''GSI2SK'', [''User'', ''{id}'', ''{email}'', ''{nationalId}''])]"

definition everything :: BuildIndexesConfig where
  "everything = \<lparr>truncateAtFirstEmpty = False, onlyFields = None\<rparr>"



section \<open>Properties\<close>

lemmas example_defs =
  PRIMARY_INDEX_CONFIG_def GSI1_CONFIG_def INDEX_FIELDS_MAP_def Handler_def staged_two_def
  reason_of_def store_cancels_def constructor_def

lemmas trx_defs =
  trxRemoveUniqueConstraint_def trxInsertUniqueConstraint_def trxSetErrorHandler_def
  uniqueConstraint_def string_of_int_def string_of_nat.simps digit_char_def Code_text_def
  trxHandleError_def trxExecute_def join_element_def indexValueSeparator_def
  uniqueSortKeyValue_def marshall_removeUndefinedValues_def

subsection \<open>The transaction executor\<close>

lemma forEach_all_None:
  "list_all (\<lambda>(i, r). Code r = Some ''None'') xs \<Longrightarrow> trxHandleError_forEach payloads xs = None"
  by (induction xs) auto

lemma forEach_skips_None:
  "list_all (\<lambda>(i, r). Code r = Some ''None'') xs \<Longrightarrow>
   trxHandleError_forEach payloads (xs @ ys) = trxHandleError_forEach payloads ys"
  by (induction xs) auto

lemma list_all_enumerate:
  "list_all P rs \<Longrightarrow> list_all (\<lambda>(i, r). P r) (List.enumerate n rs)"
  by (induction rs arbitrary: n) auto

lemma enumerate_append_Cons:
  "List.enumerate n (pre @ r # post) =
     List.enumerate n pre @ (n + length pre, r) # List.enumerate (Suc (n + length pre)) post"
  by (simp add: enumerate_append_eq)

lemma trxHandleError_all_None:
  assumes "list_all (\<lambda>r. Code r = Some ''None'') reasons"
  shows "trxHandleError this (TransactionCanceledException (Some reasons)) = None"
proof -
  have "trxHandleError_forEach (errorPayloads this) (List.enumerate 0 reasons) = None"
    using assms by (intro forEach_all_None list_all_enumerate)
  then show ?thesis by (simp add: trxHandleError_def)
qed

lemma trxHandleError_first:
  assumes "list_all (\<lambda>r. Code r = Some ''None'') pre"
    and "Code reason \<noteq> Some ''None''"
  shows "trxHandleError this (TransactionCanceledException (Some (pre @ reason # post))) =
           Some (case errorPayloads this (Code_text reason @ ''-'' @ string_of_nat (length pre)) of
                   Some registered \<Rightarrow> registered
                 | None \<Rightarrow> NotHandled (length pre) reason)"
proof -
  have "trxHandleError_forEach (errorPayloads this) (List.enumerate 0 (pre @ reason # post)) =
        trxHandleError_forEach (errorPayloads this)
          ((length pre, reason) # List.enumerate (Suc (length pre)) post)"
    using assms(1) by (simp add: enumerate_append_Cons forEach_skips_None list_all_enumerate)
  then show ?thesis
    using assms(2) by (simp add: trxHandleError_def Let_def split: option.splits)
qed

text \<open>
  The handler of the operation staged last is registered under its reason and the
  position of that operation, in the spelling the executor looks up.
\<close>

lemma trxSetErrorHandler_key:
  assumes "items this \<noteq> []"
  shows "errorPayloads (trxSetErrorHandler reason payload this)
           (reason @ ''-'' @ string_of_nat (length (items this) - 1)) = Some payload"
proof -
  have "int (length (items this)) - 1 = int (length (items this) - 1)"
    using assms by (cases "items this") auto
  then show ?thesis
    by (simp add: trxSetErrorHandler_def string_of_int_def Let_def del: of_nat_diff)
qed

text \<open>
  C2, as the code has it. When the store cancels the transaction and every entry of the
  report has the code \<^verbatim>\<open>None\<close>, no registered error is raised, but \<open>trxExecute\<close> does
  not return normally either: the \<^verbatim>\<open>catch\<close> block rethrows the store's cancellation
  exception. The operation list and the error-handler map are empty afterwards.
\<close>

theorem trxExecute_all_None_rethrows:
  assumes "list_all (\<lambda>r. Code r = Some ''None'') reasons"
    and "send (items this) = Inl (TransactionCanceledException (Some reasons))"
  shows "trxExecute send this =
           (Inl (TransactionCanceledException (Some reasons)),
            this\<lparr>items := [], errorPayloads := Map.empty\<rparr>)"
  using assms(2) trxHandleError_all_None [OF assms(1)]
  by (simp add: trxExecute_def Let_def)

theorem trxExecute_all_None_rethrows_witness:
  "list_all (\<lambda>r. Code r = Some ''None'') [reason_of ''None'', reason_of ''None'']
   \<and> trxExecute (store_cancels [reason_of ''None'', reason_of ''None'']) staged_two =
       (Inl (TransactionCanceledException (Some [reason_of ''None'', reason_of ''None''])),
        staged_two\<lparr>items := [], errorPayloads := Map.empty\<rparr>)"
proof -
  have h1: "list_all (\<lambda>r. Code r = Some ''None'') [reason_of ''None'', reason_of ''None'']"
    by (simp add: reason_of_def)
  have h2: "store_cancels [reason_of ''None'', reason_of ''None''] (items staged_two) =
              Inl (TransactionCanceledException (Some [reason_of ''None'', reason_of ''None'']))"
    by (simp add: store_cancels_def)
  show ?thesis
    using h1 trxExecute_all_None_rethrows
                [where send = "store_cancels [reason_of ''None'', reason_of ''None'']"
                   and this = staged_two, OF h1 h2]
    by simp
qed

text \<open>
  With two operations staged and a report of two \<^verbatim>\<open>None\<close> codes, \<open>trxExecute\<close>
  raises: it does not return without an error.
\<close>

theorem trxExecute_all_None_counterexample:
  "fst (trxExecute (store_cancels [reason_of ''None'', reason_of ''None'']) staged_two) \<noteq> Inr ()"
  by (simp add: example_defs trx_defs)

text \<open>
  C3. Whatever the scratch state was and whatever the store does (a success, a status
  other than 200, an exception of the store, a cancellation that maps to a registered
  error), the operation list and the error-handler map are empty when \<open>trxExecute\<close>
  hands control back to its caller.
\<close>

theorem trxExecute_clears_scratch_state:
  "items (snd (trxExecute send this)) = []
   \<and> errorPayloads (snd (trxExecute send this)) = Map.empty"
  by (simp add: trxExecute_def Let_def)

theorem trxExecute_clears_scratch_state_witness:
  "fst (trxExecute (store_cancels [reason_of ''ConditionalCheckFailed'', reason_of ''None''])
          staged_two)
     = Inl (UniqueContraintError ''Failed to insert unique constraint for one of [n@b.com]'')
   \<and> items staged_two \<noteq> []
   \<and> items (snd (trxExecute
                  (store_cancels [reason_of ''ConditionalCheckFailed'', reason_of ''None''])
                  staged_two)) = []
   \<and> errorPayloads (snd (trxExecute
                  (store_cancels [reason_of ''ConditionalCheckFailed'', reason_of ''None''])
                  staged_two)) = Map.empty"
proof -
  have "fst (trxExecute (store_cancels [reason_of ''ConditionalCheckFailed'', reason_of ''None''])
          staged_two)
     = Inl (UniqueContraintError ''Failed to insert unique constraint for one of [n@b.com]'')"
    by (simp add: example_defs trx_defs)
  moreover have "items staged_two \<noteq> []"
    by (simp add: example_defs trx_defs)
  ultimately show ?thesis
    using trxExecute_clears_scratch_state
            [of "store_cancels [reason_of ''ConditionalCheckFailed'', reason_of ''None'']" staged_two]
    by simp
qed

text \<open>
  C4. When the store cancels the transaction with a positional report, the entries are
  scanned in submission order and entries with the code \<^verbatim>\<open>None\<close> are skipped. At the
  first entry with another code, the error registered under that code and position is
  raised if there is one, and otherwise an unclassified error that carries the position
  and the raw entry. What follows that entry in the report has no influence.
\<close>

theorem trxExecute_raises_first_failure:
  assumes "list_all (\<lambda>r. Code r = Some ''None'') pre"
    and "Code reason \<noteq> Some ''None''"
    and "send (items this) = Inl (TransactionCanceledException (Some (pre @ reason # post)))"
  shows "fst (trxExecute send this) =
           Inl (case errorPayloads this (Code_text reason @ ''-'' @ string_of_nat (length pre)) of
                  Some registered \<Rightarrow> registered
                | None \<Rightarrow> NotHandled (length pre) reason)"
  using assms(3) trxHandleError_first [OF assms(1) assms(2), of this post]
  by (simp add: trxExecute_def Let_def)

theorem trxExecute_raises_first_failure_witness:
  "list_all (\<lambda>r. Code r = Some ''None'') [reason_of ''None'']
   \<and> Code (reason_of ''ConditionalCheckFailed'') \<noteq> Some ''None''
   \<and> fst (trxExecute
            (store_cancels [reason_of ''None'', reason_of ''ConditionalCheckFailed'',
                            reason_of ''TransactionConflict''])
            staged_two)
       = Inl (Error ''Failed to delete unique constraint for User a@b.com'')"
proof -
  have h1: "list_all (\<lambda>r. Code r = Some ''None'') [reason_of ''None'']"
    by (simp add: reason_of_def)
  have h2: "Code (reason_of ''ConditionalCheckFailed'') \<noteq> Some ''None''"
    by (simp add: reason_of_def)
  have h3: "store_cancels [reason_of ''None'', reason_of ''ConditionalCheckFailed'',
                           reason_of ''TransactionConflict''] (items staged_two)
              = Inl (TransactionCanceledException
                       (Some ([reason_of ''None''] @ reason_of ''ConditionalCheckFailed''
                              # [reason_of ''TransactionConflict''])))"
    by (simp add: store_cancels_def)
  have "errorPayloads staged_two
          (Code_text (reason_of ''ConditionalCheckFailed'') @ ''-''
           @ string_of_nat (length [reason_of ''None'']))
        = Some (Error ''Failed to delete unique constraint for User a@b.com'')"
    by (simp add: example_defs trx_defs)
  then show ?thesis
    using h1 h2 trxExecute_raises_first_failure
                  [where send = "store_cancels [reason_of ''None'', reason_of ''ConditionalCheckFailed'',
                                                reason_of ''TransactionConflict'']"
                     and this = staged_two, OF h1 h2 h3]
    by simp
qed

subsection \<open>Queries\<close>

lemmas query_defs =
  query_def queryOne_def buildIndexes_def buildIndexValue_def replaceFieldWithValue_def
  String_replace_def js_get_def Object_prototype_def marshall_def string_or_undefined_def
  unmarshallReservedKeys_def RESERVED_KEYWORD_PREFIX_def removeIndexProperties_def
  encodeLastEvaluatedKey_def decodeLastEvaluatedKey_def indexValueSeparator_def
  store_answers_def stored_user_def

text \<open>What \<open>removeIndexProperties\<close> keeps: only properties named like a key of the index field map.\<close>

lemma removeIndexProperties_keys:
  "fst ` set (removeIndexProperties resource fieldsMap) \<subseteq> fst ` set fieldsMap"
  by (force simp: removeIndexProperties_def)

lemma removeIndexProperties_keeps_index_keys:
  "(key, value) \<in> set resource \<Longrightarrow> key \<in> fst ` set fieldsMap \<Longrightarrow>
   (key, value) \<in> set (removeIndexProperties resource fieldsMap)"
  by (force simp: removeIndexProperties_def)

text \<open>
  C1 says that the index key attributes are removed from every entity \<open>query\<close> returns
  and that every other field is kept. The code does the opposite: the filter in
  \<open>removeIndexProperties\<close> keeps a property when its name is among the forbidden
  fields. For the stored user below, the entity handed back consists of the four index
  attributes, and \<open>id\<close>, \<open>email\<close> and the timestamps are gone.
\<close>

theorem query_returns_only_index_attributes:
  "query demo_platform (store_answers [stored_user]) Handler [(''id'', JStr ''1'')]
     PRIMARY_INDEX_CONFIG \<lparr>skMatch = exact, sort = None, limit = None, lastId = None\<rparr>
   = Inr \<lparr>result_data =
            [[(''PK'', JStr ''acme#User#1''), (''SK'', JStr ''acme#User''),
              (''GSI1PK'', JStr ''acme#User''), (''GSI1SK'', JStr ''acme#User#a@b.com'')]],
          result_lastId = None\<rparr>"
  by (simp add: query_defs example_defs)

text \<open>
  C8. \<open>queryOne\<close> runs \<open>query\<close> with the limit 1. When that query fails, so does
  \<open>queryOne\<close>, with the same error; when it returns no item the result is \<^verbatim>\<open>null\<close>;
  when it returns one item the result is that item; when it returns more than one item
  \<open>queryOne\<close> raises an error (and returns none of them).
\<close>

theorem queryOne_is_query_with_limit_one:
  assumes "query pf send this queryIndexValues queryIndex
             \<lparr>skMatch = skMatch config, sort = sort config, limit = Some 1, lastId = None\<rparr>
           = outcome"
  shows "(\<forall>e. outcome = Inl e \<longrightarrow>
            queryOne pf send this queryIndexValues queryIndex config = Inl e)
       \<and> (\<forall>results. outcome = Inr results \<and> result_data results = [] \<longrightarrow>
            queryOne pf send this queryIndexValues queryIndex config = Inr None)
       \<and> (\<forall>results entity. outcome = Inr results \<and> result_data results = [entity] \<longrightarrow>
            queryOne pf send this queryIndexValues queryIndex config = Inr (Some entity))
       \<and> (\<forall>results. outcome = Inr results \<and> 1 < length (result_data results) \<longrightarrow>
            queryOne pf send this queryIndexValues queryIndex config
              = Inl (MoreThanOne queryIndexValues))"
  using assms by (auto simp: queryOne_def)

theorem queryOne_is_query_with_limit_one_witness:
  "queryOne demo_platform (store_answers []) Handler [(''id'', JStr ''1'')]
     PRIMARY_INDEX_CONFIG \<lparr>skMatch = exact, sort = None\<rparr> = Inr None
   \<and> queryOne demo_platform (store_answers [stored_user]) Handler [(''id'', JStr ''1'')]
       PRIMARY_INDEX_CONFIG \<lparr>skMatch = exact, sort = None\<rparr>
       = Inr (Some [(''PK'', JStr ''acme#User#1''), (''SK'', JStr ''acme#User''),
                    (''GSI1PK'', JStr ''acme#User''), (''GSI1SK'', JStr ''acme#User#a@b.com'')])
   \<and> queryOne demo_platform (store_answers [stored_user, stored_user]) Handler
       [(''id'', JStr ''1'')] PRIMARY_INDEX_CONFIG \<lparr>skMatch = exact, sort = None\<rparr>
       = Inl (MoreThanOne [(''id'', JStr ''1'')])"
proof -
  let ?cfg = "\<lparr>skMatch = exact, sort = None\<rparr>"
  let ?q = "\<lambda>found. query demo_platform (store_answers found) Handler [(''id'', JStr ''1'')]
              PRIMARY_INDEX_CONFIG
              \<lparr>skMatch = skMatch ?cfg, sort = sort ?cfg, limit = Some 1, lastId = None\<rparr>"
  let ?entity = "[(''PK'', JStr ''acme#User#1''), (''SK'', JStr ''acme#User''),
                  (''GSI1PK'', JStr ''acme#User''), (''GSI1SK'', JStr ''acme#User#a@b.com'')]"
  have q0: "?q [] = Inr \<lparr>result_data = [], result_lastId = None\<rparr>"
    by (simp add: query_defs example_defs)
  have q1: "?q [stored_user] = Inr \<lparr>result_data = [?entity], result_lastId = None\<rparr>"
    by (simp add: query_defs example_defs)
  have q2: "?q [stored_user, stored_user]
              = Inr \<lparr>result_data = [?entity, ?entity], result_lastId = None\<rparr>"
    by (simp add: query_defs example_defs)
  show ?thesis
    using queryOne_is_query_with_limit_one [OF q0]
          queryOne_is_query_with_limit_one [OF q1]
          queryOne_is_query_with_limit_one [OF q2]
    by simp
qed

subsection \<open>The cursor codec\<close>

text \<open>
  \<open>encodeLastEvaluatedKey\<close> tests its argument for truthiness: besides \<^verbatim>\<open>undefined\<close>, the
  falsy values \<^verbatim>\<open>null\<close>, \<^verbatim>\<open>0\<close>, the empty string and \<^verbatim>\<open>false\<close> yield no token
  either. A last-key record is an object, and every object is truthy.
\<close>

lemma encodeLastEvaluatedKey_falsy:
  "\<not> truthy lastEvaluatedKey \<Longrightarrow> encodeLastEvaluatedKey pf lastEvaluatedKey = None"
  by (simp add: encodeLastEvaluatedKey_def)

lemma decodeLastEvaluatedKey_total:
  "decodeLastEvaluatedKey pf token =
     (case JSON_parse pf (Buffer_toString_utf8 pf (Buffer_from_base64 pf token)) of
        None \<Rightarrow> JUndefined
      | Some position \<Rightarrow> position)"
  by (simp add: decodeLastEvaluatedKey_def)

text \<open>
  C7. A position is the store's last-key record, an object. Where the platform's
  conversions undo each other on the text of the position (base64 on its bytes, UTF-8 on
  its text, \<^verbatim>\<open>JSON.parse\<close> on \<^verbatim>\<open>JSON.stringify\<close>), encoding the position yields a
  token and decoding that token yields the position again. An absent position yields no
  token. Decoding is total: it has no raising path, and a token whose decoded text
  \<^verbatim>\<open>JSON.parse\<close> rejects yields \<^verbatim>\<open>undefined\<close>.
\<close>

theorem cursor_codec_round_trip:
  assumes "Buffer_from_base64 pf
             (Buffer_toString_base64 pf (Buffer_from_utf8 pf (JSON_stringify pf (JObj position))))
           = Buffer_from_utf8 pf (JSON_stringify pf (JObj position))"
    and "Buffer_toString_utf8 pf (Buffer_from_utf8 pf (JSON_stringify pf (JObj position)))
           = JSON_stringify pf (JObj position)"
    and "JSON_parse pf (JSON_stringify pf (JObj position)) = Some (JObj position)"
  shows "(\<exists>token. encodeLastEvaluatedKey pf (JObj position) = Some token
                 \<and> decodeLastEvaluatedKey pf token = JObj position)
       \<and> encodeLastEvaluatedKey pf JUndefined = None
       \<and> (JSON_parse pf (Buffer_toString_utf8 pf (Buffer_from_base64 pf garbled)) = None
            \<longrightarrow> decodeLastEvaluatedKey pf garbled = JUndefined)"
  using assms by (simp add: encodeLastEvaluatedKey_def decodeLastEvaluatedKey_def)

theorem cursor_codec_round_trip_witness:
  "encodeLastEvaluatedKey demo_platform
     (JObj [(''PK'', JStr ''acme#User#1''), (''SK'', JStr ''acme#User'')])
     = Some ''eyJQSyI6ImFjbWUjVXNlciMxIiwiU0siOiJhY21lI1VzZXIifQ==''
   \<and> decodeLastEvaluatedKey demo_platform
       ''eyJQSyI6ImFjbWUjVXNlciMxIiwiU0siOiJhY21lI1VzZXIifQ==''
     = JObj [(''PK'', JStr ''acme#User#1''), (''SK'', JStr ''acme#User'')]
   \<and> encodeLastEvaluatedKey demo_platform JUndefined = None
   \<and> decodeLastEvaluatedKey demo_platform ''garbage'' = JUndefined"
proof -
  let ?position = "[(''PK'', JStr ''acme#User#1''), (''SK'', JStr ''acme#User'')]"
  have h1: "Buffer_from_base64 demo_platform
              (Buffer_toString_base64 demo_platform
                 (Buffer_from_utf8 demo_platform (JSON_stringify demo_platform (JObj ?position))))
            = Buffer_from_utf8 demo_platform (JSON_stringify demo_platform (JObj ?position))"
    by code_simp
  have h2: "Buffer_toString_utf8 demo_platform
              (Buffer_from_utf8 demo_platform (JSON_stringify demo_platform (JObj ?position)))
            = JSON_stringify demo_platform (JObj ?position)"
    by code_simp
  have h3: "JSON_parse demo_platform (JSON_stringify demo_platform (JObj ?position))
            = Some (JObj ?position)"
    by code_simp
  have h4: "JSON_parse demo_platform
              (Buffer_toString_utf8 demo_platform (Buffer_from_base64 demo_platform ''garbage''))
            = None"
    by code_simp
  have token: "encodeLastEvaluatedKey demo_platform (JObj ?position)
            = Some ''eyJQSyI6ImFjbWUjVXNlciMxIiwiU0siOiJhY21lI1VzZXIifQ==''"
    by code_simp
  show ?thesis
    using cursor_codec_round_trip [OF h1 h2 h3, of "''garbage''"] h4 token by auto
qed

subsection \<open>The expression compiler\<close>

lemmas expression_defs =
  getUpdateExpression_def mappedKey_of_def isReservedKey_def toUpperCase_def
  toUpperCase_char_def RESERVED_KEYWORDS_def RESERVED_KEYWORD_PREFIX_def

text \<open>
  What holds of \<open>getUpdateExpression\<close>: a payload without a defined field yields no
  expression, and a payload whose first entry is defined yields a clause that begins with
  \<^verbatim>\<open>SET\<close> and the assignment of that entry.
\<close>

lemma update_fold_extends:
  "\<exists>t. foldl (\<lambda>acc (index, (key, value)).
             if value = JUndefined then acc
             else if index = 0 then first key
             else acc @ sep @ clause key) acc (List.enumerate (Suc n) xs) = acc @ t"
proof (induction xs arbitrary: acc n)
  case Nil
  then show ?case by simp
next
  case (Cons p xs)
  obtain k v where p: "p = (k, v)" by (cases p)
  show ?case
  proof (cases "v = JUndefined")
    case True
    then show ?thesis using Cons.IH [of acc "Suc n"] p by simp
  next
    case False
    obtain t where "foldl (\<lambda>acc (index, (key, value)).
             if value = JUndefined then acc
             else if index = 0 then first key
             else acc @ sep @ clause key) (acc @ sep @ clause k) (List.enumerate (Suc (Suc n)) xs)
           = (acc @ sep @ clause k) @ t"
      using Cons.IH [of "acc @ sep @ clause k" "Suc n"] by blast
    then show ?thesis using False p by simp
  qed
qed

lemma getUpdateExpression_first_defined:
  assumes "value \<noteq> JUndefined"
  shows "\<exists>t. getUpdateExpression ((key, value) # rest) keyPrefix valuePrefix
              = Some (''SET '' @ mappedKey_of keyPrefix key @ '' = '' @ valuePrefix @ key @ t)"
proof -
  let ?clause = "\<lambda>key. mappedKey_of keyPrefix key @ '' = '' @ valuePrefix @ key"
  obtain t where "foldl (\<lambda>acc (index, (key, value)).
             if value = JUndefined then acc
             else if index = 0 then ''SET '' @ ?clause key
             else acc @ '', '' @ ?clause key) (''SET '' @ ?clause key) (List.enumerate (Suc 0) rest)
           = (''SET '' @ ?clause key) @ t"
    using update_fold_extends [of "\<lambda>key. ''SET '' @ ?clause key" "'', ''" ?clause
                                  "''SET '' @ ?clause key" 0 rest]
    by blast
  then show ?thesis
    using assms by (simp add: getUpdateExpression_def)
qed

lemma update_fold_undefined:
  "list_all (\<lambda>(key, value). value = JUndefined) xs \<Longrightarrow>
   foldl (\<lambda>acc (index, (key, value)).
             if value = JUndefined then acc
             else if index = 0 then first key
             else acc @ sep @ clause key) acc (List.enumerate n xs) = acc"
  by (induction xs arbitrary: n) auto

lemma getUpdateExpression_no_defined_field:
  "list_all (\<lambda>(key, value). value = JUndefined) payload \<Longrightarrow>
   getUpdateExpression payload keyPrefix valuePrefix = None"
  by (simp add: getUpdateExpression_def update_fold_undefined)

text \<open>
  C6 says that a payload with a defined field yields one clause that begins with
  \<^verbatim>\<open>SET\<close>. The code writes \<^verbatim>\<open>SET\<close> only when the entry at position 0 is defined:
  when the first entry is \<^verbatim>\<open>undefined\<close> and a later one is not, the expression begins
  with the separator and has no \<^verbatim>\<open>SET\<close>.
\<close>

theorem getUpdateExpression_first_field_undefined:
  "getUpdateExpression [(''givenName'', JUndefined), (''lastName'', JStr ''Doe'')] ''#'' '':''
   = Some '', #lastName = :lastName''"
  by (simp add: expression_defs)

subsection \<open>The index key builder\<close>

lemmas build_defs =
  buildIndexes_def buildIndexValue_def replaceFieldWithValue_def String_replace_def js_get_def
  Object_prototype_def
  indexValueSeparator_def three_part_key_def everything_def

lemma replaceFieldWithValue_fold:
  "replaceFieldWithValue field resource = foldl (replaceField_step resource) field (fieldRegex_exec field)"
  unfolding replaceFieldWithValue_def replaceField_step_def Let_def ..

(* regex *)

lemma exec_skip_literal:
  "CHR ''{'' \<notin> set s \<Longrightarrow> fieldRegex_exec (s @ t) = fieldRegex_exec t"
  by (induction s) auto

lemma takeWhile_name:
  "CHR ''}'' \<notin> set f \<Longrightarrow> takeWhile (\<lambda>x. x \<noteq> CHR ''}'') (f @ CHR ''}'' # t) = f"
  by (induction f) auto

lemma dropWhile_name:
  "CHR ''}'' \<notin> set f \<Longrightarrow> dropWhile (\<lambda>x. x \<noteq> CHR ''}'') (f @ CHR ''}'' # t) = CHR ''}'' # t"
  by (induction f) auto

lemma exec_placeholder:
  "f \<noteq> [] \<Longrightarrow> CHR ''}'' \<notin> set f \<Longrightarrow>
   fieldRegex_exec (CHR ''{'' # f @ CHR ''}'' # t) = f # fieldRegex_exec t"
  by (simp add: takeWhile_name dropWhile_name)

lemma exec_names_no_close:
  "g \<in> set (fieldRegex_exec s) \<Longrightarrow> CHR ''}'' \<notin> set g"
proof (induction s rule: fieldRegex_exec.induct)
  case 1
  then show ?case by simp
next
  case (2 c cs)
  then show ?case
    by (auto split: if_splits dest: set_takeWhileD)
qed

lemma exec_segments:
  "list_all (resolved resource) ps \<Longrightarrow>
   fieldRegex_exec (concat (map render ps) @ t) = placeholders ps @ fieldRegex_exec t"
proof (induction ps)
  case Nil
  then show ?case by simp
next
  case (Cons p ps)
  show ?case
  proof (cases p)
    case (Literal s)
    with Cons show ?thesis by (simp add: exec_skip_literal del: fieldRegex_exec.simps)
  next
    case (Placeholder f)
    with Cons show ?thesis
      by (simp add: exec_placeholder fieldName_def del: fieldRegex_exec.simps)
  qed
qed

lemma GetSubstitution_plain:
  "\<not> has_replacement_pattern rep \<Longrightarrow> GetSubstitution matched pre post rep = rep"
  by (induction matched pre post rep rule: GetSubstitution.induct) (auto split: if_splits)

(* indexOf *)

lemma indexOf_at:
  "CHR ''{'' \<notin> set a \<Longrightarrow> indexOf (a @ (CHR ''{'' # p) @ x) (CHR ''{'' # p) = Some (length a)"
  by (induction a) auto

lemma String_replace_at:
  assumes "CHR ''{'' \<notin> set a"
  shows "String_replace (a @ (CHR ''{'' # p) @ x) (CHR ''{'' # p) rep
           = a @ GetSubstitution (CHR ''{'' # p) a x rep @ x"
  using indexOf_at [OF assms, of p x] by (simp add: String_replace_def)

lemma step_resolved:
  assumes "resolved resource (Placeholder f)" and "CHR ''{'' \<notin> set a"
  shows "replaceField_step resource (a @ render (Placeholder f) @ x) f
           = a @ substituted resource (Placeholder f) @ x"
  using assms String_replace_at [of a "f @ ''}''" x "js_String (js_get resource f)"]
  by (simp add: replaceField_step_def GetSubstitution_plain)

lemma fold_resolved:
  "list_all (resolved resource) ps \<Longrightarrow> CHR ''{'' \<notin> set a \<Longrightarrow>
   foldl (replaceField_step resource) (a @ concat (map render ps) @ b) (placeholders ps)
     = a @ concat (map (substituted resource) ps) @ b"
proof (induction ps arbitrary: a)
  case Nil
  then show ?case by simp
next
  case (Cons p ps)
  show ?case
  proof (cases p)
    case (Literal s)
    have "foldl (replaceField_step resource) ((a @ s) @ concat (map render ps) @ b) (placeholders ps)
            = (a @ s) @ concat (map (substituted resource) ps) @ b"
      using Cons.prems Literal by (intro Cons.IH) auto
    then show ?thesis using Literal by simp
  next
    case (Placeholder f)
    let ?v = "js_String (js_get resource f)"
    have first: "replaceField_step resource (a @ render (Placeholder f) @ concat (map render ps) @ b) f
            = a @ ?v @ concat (map render ps) @ b"
      using step_resolved [of resource f a "concat (map render ps) @ b"] Cons.prems Placeholder
      by simp
    have "foldl (replaceField_step resource) ((a @ ?v) @ concat (map render ps) @ b) (placeholders ps)
            = (a @ ?v) @ concat (map (substituted resource) ps) @ b"
      using Cons.prems Placeholder by (intro Cons.IH) auto
    then show ?thesis using Placeholder first by simp
  qed
qed

lemma name_prefix:
  "CHR ''}'' \<notin> set f \<Longrightarrow> CHR ''}'' \<notin> set g \<Longrightarrow>
   prefix (g @ CHR ''}'' # u) (f @ CHR ''}'' # w) \<Longrightarrow> g = f"
proof (induction g arbitrary: f)
  case Nil
  then show ?case by (cases f) auto
next
  case (Cons c g)
  then show ?case by (cases f) auto
qed

lemma indexOf_skip_chars:
  "CHR ''{'' \<notin> set a \<Longrightarrow>
   indexOf (a @ s) (CHR ''{'' # p)
     = (case indexOf s (CHR ''{'' # p) of None \<Rightarrow> None | Some i \<Rightarrow> Some (length a + i))"
  by (induction a) (auto split: option.splits)

lemma indexOf_skip_unresolved:
  assumes "CHR ''{'' \<notin> set a" and "CHR ''{'' \<notin> set f" and "CHR ''}'' \<notin> set f"
    and "CHR ''}'' \<notin> set g" and "g \<noteq> f"
  shows "indexOf (a @ CHR ''{'' # f @ CHR ''}'' # x) (CHR ''{'' # g @ ''}'')
           = (case indexOf x (CHR ''{'' # g @ ''}'') of
                None \<Rightarrow> None
              | Some i \<Rightarrow> Some (length (a @ CHR ''{'' # f @ ''}'') + i))"
proof -
  let ?pat = "CHR ''{'' # g @ ''}''"
  have no: "\<not> prefix (g @ ''}'') (f @ CHR ''}'' # x)"
    using name_prefix [of f g "[]" x] assms by auto
  have "indexOf ((f @ ''}'') @ x) ?pat
          = (case indexOf x ?pat of None \<Rightarrow> None | Some i \<Rightarrow> Some (length (f @ ''}'') + i))"
    using assms(2) by (intro indexOf_skip_chars) auto
  then have inner: "indexOf (CHR ''{'' # f @ CHR ''}'' # x) ?pat
          = (case indexOf x ?pat of None \<Rightarrow> None | Some i \<Rightarrow> Some (length (CHR ''{'' # f @ ''}'') + i))"
    using no by (auto split: option.splits)
  have "indexOf (a @ CHR ''{'' # f @ CHR ''}'' # x) ?pat
          = (case indexOf (CHR ''{'' # f @ CHR ''}'' # x) ?pat of
               None \<Rightarrow> None | Some i \<Rightarrow> Some (length a + i))"
    using assms(1) by (rule indexOf_skip_chars)
  then show ?thesis
    unfolding inner by (auto split: option.splits)
qed

lemma step_keeps_unresolved:
  assumes "\<not> truthy (js_get resource f)" and "CHR ''{'' \<notin> set a"
    and "CHR ''{'' \<notin> set f" and "CHR ''}'' \<notin> set f" and "CHR ''}'' \<notin> set g"
  shows "\<exists>x'. replaceField_step resource (a @ CHR ''{'' # f @ CHR ''}'' # x) g
                = a @ CHR ''{'' # f @ CHR ''}'' # x'"
proof (cases "truthy (js_get resource g)")
  case False
  then show ?thesis by (simp add: replaceField_step_def)
next
  case True
  with assms(1) have "g \<noteq> f" by auto
  let ?s = "a @ CHR ''{'' # f @ CHR ''}'' # x"
  let ?pat = "CHR ''{'' # g @ ''}''"
  have idx: "indexOf ?s ?pat
               = (case indexOf x ?pat of
                    None \<Rightarrow> None
                  | Some i \<Rightarrow> Some (length (a @ CHR ''{'' # f @ ''}'') + i))"
    using assms \<open>g \<noteq> f\<close> by (intro indexOf_skip_unresolved)
  show ?thesis
  proof (cases "indexOf x ?pat")
    case None
    with idx True show ?thesis by (simp add: replaceField_step_def String_replace_def)
  next
    case (Some i)
    with idx have pos: "indexOf ?s ?pat = Some (length (a @ CHR ''{'' # f @ ''}'') + i)" by simp
    have tk: "take (length (a @ CHR ''{'' # f @ ''}'') + i) ?s = (a @ CHR ''{'' # f @ ''}'') @ take i x"
      by simp
    show ?thesis
      using True pos unfolding replaceField_step_def String_replace_def
      by (simp only: if_True option.case tk) simp
  qed
qed

lemma fold_keeps_unresolved:
  assumes "\<not> truthy (js_get resource f)" and "CHR ''{'' \<notin> set a"
    and "CHR ''{'' \<notin> set f" and "CHR ''}'' \<notin> set f"
  shows "\<forall>g\<in>set gs. CHR ''}'' \<notin> set g \<Longrightarrow>
         \<exists>x'. foldl (replaceField_step resource) (a @ CHR ''{'' # f @ CHR ''}'' # x) gs
                = a @ CHR ''{'' # f @ CHR ''}'' # x'"
proof (induction gs arbitrary: x)
  case Nil
  then show ?case by simp
next
  case (Cons g gs)
  obtain x1 where "replaceField_step resource (a @ CHR ''{'' # f @ CHR ''}'' # x) g
                     = a @ CHR ''{'' # f @ CHR ''}'' # x1"
    using step_keeps_unresolved [OF assms, of g x] Cons.prems by auto
  then show ?case using Cons.IH [of x1] Cons.prems by simp
qed

lemma substituted_no_brace:
  "list_all (resolved resource) ps \<Longrightarrow> CHR ''{'' \<notin> set (concat (map (substituted resource) ps))"
proof (induction ps)
  case Nil
  then show ?case by simp
next
  case (Cons p ps)
  then show ?case by (cases p) auto
qed

lemma replaceFieldWithValue_unresolved:
  assumes "list_all (resolved resource) ps" and "fieldName f"
    and "\<not> truthy (js_get resource f)"
  shows "\<exists>x'. replaceFieldWithValue (concat (map render ps) @ CHR ''{'' # f @ CHR ''}'' # rest) resource
                = concat (map (substituted resource) ps) @ CHR ''{'' # f @ CHR ''}'' # x'"
proof -
  let ?field = "concat (map render ps) @ CHR ''{'' # f @ CHR ''}'' # rest"
  let ?P = "concat (map (substituted resource) ps)"
  let ?step = "replaceField_step resource"
  have f: "f \<noteq> []" "CHR ''{'' \<notin> set f" "CHR ''}'' \<notin> set f"
    using assms(2) by (auto simp: fieldName_def)
  have names: "fieldRegex_exec ?field = placeholders ps @ f # fieldRegex_exec rest"
    using exec_segments [OF assms(1), of "CHR ''{'' # f @ CHR ''}'' # rest"] f
    by (simp add: exec_placeholder del: fieldRegex_exec.simps)
  have P: "CHR ''{'' \<notin> set ?P"
    using assms(1) by (rule substituted_no_brace)
  have "foldl ?step ?field (placeholders ps) = ?P @ CHR ''{'' # f @ CHR ''}'' # rest"
    using fold_resolved [OF assms(1), of "[]" "CHR ''{'' # f @ CHR ''}'' # rest"] by simp
  moreover have "?step (?P @ CHR ''{'' # f @ CHR ''}'' # rest) f = ?P @ CHR ''{'' # f @ CHR ''}'' # rest"
    using assms(3) by (simp add: replaceField_step_def)
  ultimately have "foldl ?step ?field (fieldRegex_exec ?field)
                     = foldl ?step (?P @ CHR ''{'' # f @ CHR ''}'' # rest) (fieldRegex_exec rest)"
    unfolding names by simp
  moreover have "\<exists>x'. foldl ?step (?P @ CHR ''{'' # f @ CHR ''}'' # rest) (fieldRegex_exec rest)
                        = ?P @ CHR ''{'' # f @ CHR ''}'' # x'"
    using assms(3) P f(2,3)
    by (rule fold_keeps_unresolved) (auto dest: exec_names_no_close)
  ultimately show ?thesis
    by (simp add: replaceFieldWithValue_fold)
qed

lemma takeWhile_before_brace:
  "CHR ''{'' \<notin> set a \<Longrightarrow> takeWhile (\<lambda>c. c \<noteq> CHR ''{'') (a @ CHR ''{'' # x) = a"
  by (induction a) auto

lemma buildIndexValue_truncates:
  assumes "join indexValueSeparator (tenant # segs)
             = concat (map render ps) @ CHR ''{'' # f @ CHR ''}'' # rest"
    and "list_all (resolved resource) ps" and "fieldName f"
    and "\<not> truthy (js_get resource f)"
  shows "buildIndexValue tenant resource segs = concat (map (substituted resource) ps)"
proof -
  obtain x' where "replaceFieldWithValue (join indexValueSeparator (tenant # segs)) resource
                     = concat (map (substituted resource) ps) @ CHR ''{'' # f @ CHR ''}'' # x'"
    using replaceFieldWithValue_unresolved [OF assms(2-4)] assms(1) by metis
  then show ?thesis
    using substituted_no_brace [OF assms(2)]
    by (simp add: buildIndexValue_def Let_def takeWhile_before_brace)
qed

lemma js_get_delete:
  "js_get (AList.delete f resource) g
     = (if g = f
        then (case map_of Object_prototype f of
                Some inherited \<Rightarrow> inherited
              | None \<Rightarrow> JUndefined)
        else js_get resource g)"
  by (simp add: js_get_def delete_conv')

lemma replaceField_step_delete:
  "\<not> truthy (js_get resource f) \<Longrightarrow> map_of Object_prototype f = None \<Longrightarrow>
   replaceField_step (AList.delete f resource) result g = replaceField_step resource result g"
  by (simp add: replaceField_step_def js_get_delete)

lemma replaceFieldWithValue_delete:
  assumes "\<not> truthy (js_get resource f)" and "map_of Object_prototype f = None"
  shows "replaceFieldWithValue field (AList.delete f resource) = replaceFieldWithValue field resource"
proof -
  have "replaceField_step (AList.delete f resource) = replaceField_step resource"
    using assms by (intro ext) (simp add: replaceField_step_delete)
  then show ?thesis by (simp add: replaceFieldWithValue_fold)
qed

lemma buildIndexes_delete:
  assumes "\<not> truthy (js_get resource f)" and "map_of Object_prototype f = None"
  shows "buildIndexes this (AList.delete f resource) indexConfig config
           = buildIndexes this resource indexConfig config"
  using assms by (simp add: buildIndexes_def buildIndexValue_def replaceFieldWithValue_delete)

lemma replaceFieldWithValue_single:
  assumes "fieldName g" and "CHR ''{'' \<notin> set a" and "CHR ''{'' \<notin> set b"
  shows "replaceFieldWithValue (a @ CHR ''{'' # g @ CHR ''}'' # b) resource
           = (if truthy (js_get resource g)
              then a @ GetSubstitution (CHR ''{'' # g @ ''}'') a b (js_String (js_get resource g)) @ b
              else a @ CHR ''{'' # g @ CHR ''}'' # b)"
proof -
  have g: "g \<noteq> []" "CHR ''}'' \<notin> set g"
    using assms(1) by (auto simp: fieldName_def)
  have "fieldRegex_exec (a @ CHR ''{'' # g @ CHR ''}'' # b) = g # fieldRegex_exec (b @ [])"
    using assms(2) g by (simp add: exec_skip_literal exec_placeholder del: fieldRegex_exec.simps)
  also have "fieldRegex_exec (b @ []) = []"
    using assms(3) by (subst exec_skip_literal) auto
  finally have names: "fieldRegex_exec (a @ CHR ''{'' # g @ CHR ''}'' # b) = [g]" .
  show ?thesis
    using String_replace_at [OF assms(2), of "g @ ''}''" b "js_String (js_get resource g)"]
    by (simp add: replaceFieldWithValue_fold names replaceField_step_def)
qed

lemma foldl_update_lookup:
  "distinct (map fst kvs) \<Longrightarrow> map_of kvs name = Some x \<Longrightarrow>
   map_of (foldl (\<lambda>acc (k, v). AList.update k (h v) acc) acc0 kvs) name = Some (h x)"
proof (induction kvs arbitrary: acc0)
  case Nil
  then show ?case by simp
next
  case (Cons kv kvs)
  obtain k v where kv: "kv = (k, v)" by (cases kv)
  show ?case
  proof (cases "k = name")
    case True
    with Cons.prems kv have "x = v" and notin: "name \<notin> fst ` set kvs" by auto
    have "\<And>acc. map_of acc name = Some (h v) \<Longrightarrow>
            map_of (foldl (\<lambda>acc (k, v). AList.update k (h v) acc) acc kvs) name = Some (h v)"
      using notin
    proof (induction kvs)
      case Nil
      then show ?case by simp
    next
      case (Cons p kvs)
      then show ?case by (cases p) (auto simp: update_conv')
    qed
    then show ?thesis using kv True \<open>x = v\<close> by (simp add: update_conv')
  next
    case False
    with Cons kv show ?thesis by simp
  qed
qed

lemma buildIndexes_lookup:
  assumes "distinct (map fst indexConfig)" and "map_of indexConfig name = Some segs"
    and "case onlyFields config of None \<Rightarrow> True | Some names \<Rightarrow> name \<in> set names"
  shows "map_of (buildIndexes this resource indexConfig config) name
           = Some (buildIndexValue (tenantId this) resource segs)"
proof -
  let ?keep = "\<lambda>(key, segments :: string list).
                 (case onlyFields config of None \<Rightarrow> True | Some names \<Rightarrow> key \<in> set names)"
  have d: "distinct (map fst (filter ?keep indexConfig))"
    using assms(1) by (rule distinct_map_filter)
  have m: "map_of (filter ?keep indexConfig) name = Some segs"
    using assms(2,3) by (intro map_of_filter_in) auto
  show ?thesis
    unfolding buildIndexes_def
    using foldl_update_lookup [OF d m, of "buildIndexValue (tenantId this) resource" "[]"]
    by simp
qed

text \<open>
  A value read from a plain object is falsy when the object's own value is falsy, or
  when it has no own value and \<^verbatim>\<open>Object.prototype\<close> has no member of that name: the
  inherited members are all truthy.
\<close>

lemma Object_prototype_truthy:
  "map_of Object_prototype f = Some inherited \<Longrightarrow> truthy inherited"
  by (auto simp: Object_prototype_def split: if_splits)

lemma js_get_falsy_iff:
  "\<not> truthy (js_get resource f) \<longleftrightarrow>
     (case map_of resource f of
        Some v \<Rightarrow> \<not> truthy v
      | None \<Rightarrow> map_of Object_prototype f = None)"
  by (auto simp: js_get_def dest: Object_prototype_truthy split: option.splits)




text \<open>
  The replacement text of \<^verbatim>\<open>String.prototype.replace\<close> is a pattern: a value that
  contains \<^verbatim>\<open>$&\<close> puts the placeholder back, and the key is cut inside the value.
\<close>

lemma buildIndexes_dollar_pattern:
  "buildIndexes Handler [(''email'', JStr ''a$&b'')] [(''GSI2SK'', [''User'', ''{email}'', ''{id}''])] everything
   = [(''GSI2SK'', ''acme#User#a'')]"
  by (simp add: build_defs example_defs)

text \<open>
  C10, as the code has it. A placeholder whose field is present with a falsy value is
  not substituted, and after resolved segments the key that \<open>buildIndexes\<close> builds is cut
  at that placeholder. When the field's name is not the name of a member of
  \<^verbatim>\<open>Object.prototype\<close>, this is exactly the treatment of an absent field: replacing
  fields, and building the indexes, give the same result as on the entity without that
  field. In a template with one placeholder, the placeholder is replaced exactly when
  the value read for its field is truthy.
\<close>

theorem falsy_field_is_not_substituted:
  assumes "map_of resource f = Some v" and "\<not> truthy v"
  shows "(distinct (map fst indexConfig) \<and> map_of indexConfig name = Some segs
            \<and> (case onlyFields config of None \<Rightarrow> True | Some names \<Rightarrow> name \<in> set names)
            \<and> fieldName f \<and> list_all (resolved resource) ps
            \<and> join indexValueSeparator (tenantId this # segs)
                = concat (map render ps) @ render (Placeholder f) @ rest
          \<longrightarrow> map_of (buildIndexes this resource indexConfig config) name
                = Some (concat (map (substituted resource) ps)))
       \<and> (map_of Object_prototype f = None
          \<longrightarrow> replaceFieldWithValue field resource
                = replaceFieldWithValue field (AList.delete f resource)
              \<and> buildIndexes this resource indexConfig config
                = buildIndexes this (AList.delete f resource) indexConfig config)
       \<and> (fieldName g \<and> CHR ''{'' \<notin> set a \<and> CHR ''{'' \<notin> set b
          \<longrightarrow> replaceFieldWithValue (a @ render (Placeholder g) @ b) resource
                = (if truthy (js_get resource g)
                   then a @ GetSubstitution (render (Placeholder g)) a b (js_String (js_get resource g)) @ b
                   else a @ render (Placeholder g) @ b))"
proof -
  have falsy: "\<not> truthy (js_get resource f)"
    using assms by (simp add: js_get_def)
  have "map_of (buildIndexes this resource indexConfig config) name
          = Some (concat (map (substituted resource) ps))"
    if "distinct (map fst indexConfig)" "map_of indexConfig name = Some segs"
       "case onlyFields config of None \<Rightarrow> True | Some names \<Rightarrow> name \<in> set names"
       "fieldName f" "list_all (resolved resource) ps"
       "join indexValueSeparator (tenantId this # segs)
          = concat (map render ps) @ render (Placeholder f) @ rest"
  proof -
    have "buildIndexValue (tenantId this) resource segs = concat (map (substituted resource) ps)"
      using that(4-6) falsy
      by (intro buildIndexValue_truncates [where f = f and rest = rest]) auto
    then show ?thesis
      using buildIndexes_lookup [OF that(1-3), of this resource] by simp
  qed
  moreover have "replaceFieldWithValue field resource
                   = replaceFieldWithValue field (AList.delete f resource)"
    if "map_of Object_prototype f = None"
    using falsy that by (simp add: replaceFieldWithValue_delete)
  moreover have "buildIndexes this resource indexConfig config
           = buildIndexes this (AList.delete f resource) indexConfig config"
    if "map_of Object_prototype f = None"
    using falsy that by (simp add: buildIndexes_delete)
  moreover have "replaceFieldWithValue (a @ render (Placeholder g) @ b) resource
                = (if truthy (js_get resource g)
                   then a @ GetSubstitution (render (Placeholder g)) a b (js_String (js_get resource g)) @ b
                   else a @ render (Placeholder g) @ b)"
    if "fieldName g" "CHR ''{'' \<notin> set a" "CHR ''{'' \<notin> set b"
    using replaceFieldWithValue_single [OF that] by simp
  ultimately show ?thesis by blast
qed

theorem falsy_field_is_not_substituted_witness:
  "map_of [(''id'', JStr ''42''), (''email'', JStr [])] ''email'' = Some (JStr [])
   \<and> \<not> truthy (JStr [])
   \<and> map_of (buildIndexes Handler [(''id'', JStr ''42''), (''email'', JStr [])]
               three_part_key everything) ''GSI2SK''
       = Some ''acme#User#42#''
   \<and> replaceFieldWithValue ''acme#User#{id}#{email}'' [(''id'', JStr ''42''), (''email'', JStr [])]
       = replaceFieldWithValue ''acme#User#{id}#{email}''
           (AList.delete ''email'' [(''id'', JStr ''42''), (''email'', JStr [])])
   \<and> buildIndexes Handler [(''id'', JStr ''42''), (''email'', JStr [])] three_part_key everything
       = buildIndexes Handler (AList.delete ''email'' [(''id'', JStr ''42''), (''email'', JStr [])])
           three_part_key everything
   \<and> replaceFieldWithValue ''acme#User#{id}'' [(''id'', JStr ''42''), (''email'', JStr [])]
       = ''acme#User#42''"
proof -
  let ?r = "[(''id'', JStr ''42''), (''email'', JStr [])]"
  let ?ps = "[Literal ''acme#User#'', Placeholder ''id'', Literal ''#'']"
  have h1: "map_of ?r ''email'' = Some (JStr [])" by simp
  have h2: "\<not> truthy (JStr [])" by simp
  have p1: "distinct (map fst three_part_key)
            \<and> map_of three_part_key ''GSI2SK'' = Some [''User'', ''{id}'', ''{email}'', ''{nationalId}'']
            \<and> (case onlyFields everything of None \<Rightarrow> True | Some names \<Rightarrow> ''GSI2SK'' \<in> set names)
            \<and> fieldName ''email'' \<and> list_all (resolved ?r) ?ps
            \<and> join indexValueSeparator (tenantId Handler # [''User'', ''{id}'', ''{email}'', ''{nationalId}''])
                = concat (map render ?ps) @ render (Placeholder ''email'') @ ''#{nationalId}''"
    by (simp add: three_part_key_def everything_def fieldName_def js_get_def Object_prototype_def
          indexValueSeparator_def example_defs)
  have p2: "map_of Object_prototype ''email'' = None"
    by (simp add: Object_prototype_def)
  have p3: "fieldName ''id'' \<and> CHR ''{'' \<notin> set ''acme#User#'' \<and> CHR ''{'' \<notin> set []"
    by (simp add: fieldName_def)
  have g: "truthy (js_get ?r ''id'')"
          "GetSubstitution (render (Placeholder ''id'')) ''acme#User#'' [] (js_String (js_get ?r ''id''))
             = ''42''"
          "concat (map (substituted ?r) ?ps) = ''acme#User#42#''"
    by (simp_all add: js_get_def)
  note w = falsy_field_is_not_substituted [OF h1 h2,
        where indexConfig = three_part_key and name = "''GSI2SK''"
          and segs = "[''User'', ''{id}'', ''{email}'', ''{nationalId}'']"
          and config = everything and this = Handler and ps = ?ps and rest = "''#{nationalId}''"
          and field = "''acme#User#{id}#{email}''"
          and g = "''id''" and a = "''acme#User#''" and b = "[]"]
  have "map_of (buildIndexes Handler ?r three_part_key everything) ''GSI2SK''
          = Some (concat (map (substituted ?r) ?ps))"
    by (rule mp [OF w [THEN conjunct1] p1])
  then have c1: "map_of (buildIndexes Handler ?r three_part_key everything) ''GSI2SK''
          = Some ''acme#User#42#''"
    by (simp only: g(3))
  have c2: "replaceFieldWithValue ''acme#User#{id}#{email}'' ?r
              = replaceFieldWithValue ''acme#User#{id}#{email}'' (AList.delete ''email'' ?r)
            \<and> buildIndexes Handler ?r three_part_key everything
              = buildIndexes Handler (AList.delete ''email'' ?r) three_part_key everything"
    by (rule mp [OF w [THEN conjunct2, THEN conjunct1] p2])
  have "replaceFieldWithValue (''acme#User#'' @ render (Placeholder ''id'') @ []) ?r
          = (if truthy (js_get ?r ''id'')
             then ''acme#User#''
                  @ GetSubstitution (render (Placeholder ''id'')) ''acme#User#'' []
                      (js_String (js_get ?r ''id''))
                  @ []
             else ''acme#User#'' @ render (Placeholder ''id'') @ [])"
    by (rule mp [OF w [THEN conjunct2, THEN conjunct2] p3])
  then have c3: "replaceFieldWithValue ''acme#User#{id}'' ?r = ''acme#User#42''"
    using g(1,2) by simp
  show ?thesis
    by (intro conjI) (fact h1 h2 c1 c2 [THEN conjunct1] c2 [THEN conjunct2] c3)+
qed

text \<open>
  For a placeholder named like a member of \<^verbatim>\<open>Object.prototype\<close> the two cases differ: a
  falsy own \<open>constructor\<close> cuts the key at the placeholder, while an entity without that
  field reads the inherited function, whose text is substituted (and cut at its brace).
\<close>

theorem falsy_inherited_name_counterexample:
  "buildIndexes Handler [(''id'', JStr ''1''), (''constructor'', JNum 0)]
     [(''GSI2SK'', [''User'', ''{id}'', ''{constructor}''])] everything
   = [(''GSI2SK'', ''acme#User#1#'')]
   \<and> buildIndexes Handler [(''id'', JStr ''1'')]
       [(''GSI2SK'', [''User'', ''{id}'', ''{constructor}''])] everything
     = [(''GSI2SK'', ''acme#User#1#function Object() '')]"
  by (simp add: build_defs example_defs)

subsection \<open>Staging an update\<close>







lemma spread_distinct: "distinct (map fst a) \<Longrightarrow> distinct (map fst (spread a b))"
  unfolding spread_def
  by (induction b arbitrary: a) (auto simp: distinct_update)

































lemma key_document_keys:
  "fst ` set (AList.update (sortKey (writeIndex this)) skValue
                (AList.update (partitionKey (writeIndex this)) pkValue [])) = writeKeys this"
  by (auto simp: writeKeys_def dom_update)






end
